theory Spec2Isabelle
  imports Main "HOL-Library.Sublist"
begin

section \<open>JavaScript values and strings\<close>

text \<open>
  The scraper of \<^verbatim>\<open>challenge-2/utils.ts\<close> is TypeScript over three libraries: cheerio
  (HTML selections), crawlee (the crawler) and fast-csv (the input stream). The functions of
  \<^verbatim>\<open>utils.ts\<close> are embedded one by one; what the libraries and the JavaScript runtime
  compute is either written out (strings, \<^verbatim>\<open>parseInt\<close>, cheerio's traversal methods) or
  taken as a parameter of the environment (the selector engine, the network, \<^verbatim>\<open>URL\<close>,
  \<^verbatim>\<open>Date\<close>).

  A JavaScript string is a \<^typ>\<open>string\<close>: each \<^typ>\<open>char\<close> stands for one UTF-16 code unit
  below 256. A value of type \<^verbatim>\<open>T | null | undefined\<close> is a \<open>T js\<close>. The scraper only
  produces Numbers through \<^verbatim>\<open>parseInt\<close>: a Number is \<open>NaN\<close>, an infinity, or a double
  with an integral value, \<open>Num i\<close> (\<open>-0\<close> is \<open>Num 0\<close>).
\<close>

datatype 'a js = Undefined | Null | Val 'a

datatype number = NaN | Num int | Infinity | MinusInfinity

datatype error = RangeError | TypeError | ArgumentError | NetworkError | MalformedRow

text \<open>Truthiness of a \<^verbatim>\<open>string | null | undefined\<close>, and the idiom \<^verbatim>\<open>v || null\<close>.\<close>

fun truthy :: "string js \<Rightarrow> bool" where
  "truthy (Val s) = (s \<noteq> [])"
| "truthy _ = False"

text \<open>Truthiness of a Number: \<open>NaN\<close> and zero are falsy.\<close>

fun truthyNumber :: "number \<Rightarrow> bool" where
  "truthyNumber NaN = False"
| "truthyNumber (Num i) = (i \<noteq> 0)"
| "truthyNumber _ = True"

text \<open>\<^verbatim>\<open>!v\<close>, and the string that a truthy \<open>v\<close> is.\<close>

fun falsy :: "string js \<Rightarrow> bool" where
  "falsy (Val s) = (s = [])"
| "falsy _ = True"

fun strOf :: "string js \<Rightarrow> string" where
  "strOf (Val s) = s"
| "strOf _ = []"

definition orNull :: "string js \<Rightarrow> string js" where
  "orNull v = (if truthy v then v else Null)"

text \<open>\<^verbatim>\<open>String.prototype.trim\<close>: white space and line terminators below code unit 256.\<close>

definition isWhiteSpace :: "char \<Rightarrow> bool" where
  "isWhiteSpace c = (let n = (of_char c :: nat) in
     n = 9 \<or> n = 10 \<or> n = 11 \<or> n = 12 \<or> n = 13 \<or> n = 32 \<or> n = 160)"

definition trimStart :: "string \<Rightarrow> string" where
  "trimStart s = dropWhile isWhiteSpace s"

definition trim :: "string \<Rightarrow> string" where
  "trim s = rev (trimStart (rev (trimStart s)))"

text \<open>\<^verbatim>\<open>String.prototype.toLowerCase\<close> on code units below 256.\<close>

definition lowerChar :: "char \<Rightarrow> char" where
  "lowerChar c = (let n = (of_char c :: nat) in
     if (65 \<le> n \<and> n \<le> 90) \<or> (192 \<le> n \<and> n \<le> 222 \<and> n \<noteq> 215) then char_of (n + 32) else c)"

definition toLowerCase :: "string \<Rightarrow> string" where
  "toLowerCase s = map lowerChar s"

text \<open>\<^verbatim>\<open>s.includes(sub)\<close>.\<close>

fun str_includes :: "string \<Rightarrow> string \<Rightarrow> bool" where
  "str_includes [] sub = (sub = [])"
| "str_includes (c # cs) sub = (prefix sub (c # cs) \<or> str_includes cs sub)"

text \<open>
  \<^verbatim>\<open>s.split(sep)\<close> for a string separator. \<open>splitFrom sep acc s\<close> scans \<open>s\<close> with the
  current piece \<open>acc\<close> (reversed); an empty separator splits into single code units.
\<close>

function splitFrom :: "string \<Rightarrow> string \<Rightarrow> string \<Rightarrow> string list" where
  "splitFrom sep acc [] = [rev acc]"
| "splitFrom sep acc (c # cs) =
     (if prefix sep (c # cs) then rev acc # splitFrom sep [] (drop (length sep - 1) cs)
      else splitFrom sep (c # acc) cs)"
  by pat_completeness auto
termination
  by (relation "measure (\<lambda>(sep, acc, s). length s)") auto

definition split :: "string \<Rightarrow> string \<Rightarrow> string list" where
  "split s sep = (if sep = [] then map (\<lambda>c. [c]) s else splitFrom sep [] s)"

text \<open>\<^verbatim>\<open>xs[i]\<close> on an array: \<open>Undefined\<close> out of range.\<close>

fun index :: "'a list \<Rightarrow> nat \<Rightarrow> 'a js" where
  "index [] i = Undefined"
| "index (x # xs) 0 = Val x"
| "index (x # xs) (Suc i) = index xs i"

text \<open>\<^verbatim>\<open>xs.join(sep)\<close> on an array of strings.\<close>

fun join :: "string list \<Rightarrow> string \<Rightarrow> string" where
  "join [] sep = []"
| "join [x] sep = x"
| "join (x # y # ys) sep = x @ sep @ join (y # ys) sep"

text \<open>
  The Number value of a mathematical integer: the nearest double, ties to the even
  significand. Integers up to \<open>2^53 = 9007199254740992\<close> are doubles; a larger one keeps
  its 53 leading bits, rounded, and a result of \<open>2^1024\<close> or more is infinite.
\<close>

function bitLength :: "nat \<Rightarrow> nat" where
  "bitLength n = (if n = 0 then 0 else Suc (bitLength (n div 2)))"
  by pat_completeness auto
termination
  by (relation "measure (\<lambda>n. n)") auto

declare bitLength.simps [simp del]

definition roundToDouble :: "nat \<Rightarrow> nat option" where
  "roundToDouble n =
     (if n \<le> 9007199254740992 then Some n
      else (let shift = bitLength n - 53;
                q = n div 2 ^ shift;
                r = n mod 2 ^ shift;
                half = 2 ^ (shift - 1);
                m = (if half < r \<or> (r = half \<and> odd q) then q + 1 else q);
                v = m * 2 ^ shift
            in if 2 ^ 1024 \<le> v then None else Some v))"

definition toNumber :: "int \<Rightarrow> number" where
  "toNumber i =
     (case roundToDouble (nat \<bar>i\<bar>) of
        None \<Rightarrow> if i < 0 then MinusInfinity else Infinity
      | Some v \<Rightarrow> Num (if i < 0 then - int v else int v))"

text \<open>
  \<^verbatim>\<open>parseInt(s, 10)\<close> (ECMAScript 19.2.5): leading white space is skipped, one sign is
  read, then the longest prefix of decimal digits; no digit gives \<open>NaN\<close>, and the digits
  give the Number value of the integer they denote. (Beyond 20 significant digits the
  standard lets an implementation replace the later digits by zeros before the conversion;
  the conversion here is the exact one.)
\<close>

definition isDigit :: "char \<Rightarrow> bool" where
  "isDigit c = (let n = (of_char c :: nat) in 48 \<le> n \<and> n \<le> 57)"

definition digitVal :: "char \<Rightarrow> nat" where
  "digitVal c = of_char c - 48"

definition decimal :: "string \<Rightarrow> nat" where
  "decimal ds = foldl (\<lambda>n c. 10 * n + digitVal c) 0 ds"

definition parseInt10 :: "string \<Rightarrow> number" where
  "parseInt10 inputString =
     (let S = trimStart inputString;
          sign = (case S of c # _ \<Rightarrow> if c = CHR ''-'' then - 1 else 1 | [] \<Rightarrow> (1::int));
          S' = (case S of c # cs \<Rightarrow> if c = CHR ''+'' \<or> c = CHR ''-'' then cs else S | [] \<Rightarrow> S);
          Z = takeWhile isDigit S'
      in if Z = [] then NaN else toNumber (sign * int (decimal Z)))"

text \<open>\<^verbatim>\<open>s.replace(/\D/g, "")\<close>: every code unit that is not a decimal digit is removed.\<close>

definition removeNonDigits :: "string \<Rightarrow> string" where
  "removeNonDigits s = filter isDigit s"

section \<open>Documents and cheerio selections\<close>

text \<open>
  A parsed document is a tree of nodes. An element of a selection is the path of child
  indices that leads to it from the root; a cheerio object is the list of its elements.
  The CSS selector engine (css-select) is a parameter of the loaded document:
  \<open>select D ctx s\<close> are the elements that \<^verbatim>\<open>ctx.find(s)\<close> matches, in document order.
\<close>

datatype node = Element string "(string \<times> string) list" "node list" | Text string | Comment string

type_synonym element = "nat list"
type_synonym selection = "element list"

record cheerioAPI =
  root :: node
  select :: "selection \<Rightarrow> string \<Rightarrow> selection"

fun domTextContent :: "node \<Rightarrow> string" where
  "domTextContent (Text d) = d"
| "domTextContent (Comment d) = []"
| "domTextContent (Element t as cs) = concat (map domTextContent cs)"

fun isElement :: "node \<Rightarrow> bool" where
  "isElement (Element t as cs) = True"
| "isElement _ = False"

fun nodeAt :: "node \<Rightarrow> element \<Rightarrow> node option" where
  "nodeAt n [] = Some n"
| "nodeAt (Element t as cs) (i # p) = (if i < length cs then nodeAt (cs ! i) p else None)"
| "nodeAt (Text d) (i # p) = None"
| "nodeAt (Comment d) (i # p) = None"

text \<open>\<^verbatim>\<open>$(selector)\<close> is \<^verbatim>\<open>root.find(selector)\<close>; \<^verbatim>\<open>$(this)\<close> is the selection \<open>[this]\<close>.\<close>

definition cheerio_find :: "cheerioAPI \<Rightarrow> selection \<Rightarrow> string \<Rightarrow> selection" where
  "cheerio_find D sel s = select D sel s"

definition query :: "cheerioAPI \<Rightarrow> string \<Rightarrow> selection" where
  "query D s = cheerio_find D [[]] s"

text \<open>\<^verbatim>\<open>.text()\<close>: the text contents of all elements of the selection, concatenated.\<close>

definition cheerio_text :: "cheerioAPI \<Rightarrow> selection \<Rightarrow> string" where
  "cheerio_text D sel =
     concat (map (\<lambda>p. case nodeAt (root D) p of Some n \<Rightarrow> domTextContent n | None \<Rightarrow> []) sel)"

text \<open>\<^verbatim>\<open>.attr(name)\<close>: the attribute of the first element, \<open>Undefined\<close> when there is none.\<close>

definition cheerio_attr :: "cheerioAPI \<Rightarrow> selection \<Rightarrow> string \<Rightarrow> string js" where
  "cheerio_attr D sel name =
     (case sel of
        [] \<Rightarrow> Undefined
      | p # _ \<Rightarrow>
          (case nodeAt (root D) p of
             Some (Element t as cs) \<Rightarrow> (case map_of as name of Some v \<Rightarrow> Val v | None \<Rightarrow> Undefined)
           | _ \<Rightarrow> Undefined))"

text \<open>\<^verbatim>\<open>.children()\<close>: the element children of every element of the selection.\<close>

definition elementChildren :: "node \<Rightarrow> element \<Rightarrow> selection" where
  "elementChildren r p =
     (case nodeAt r p of
        Some (Element t as cs) \<Rightarrow> map (\<lambda>i. p @ [i]) (filter (\<lambda>i. isElement (cs ! i)) [0..<length cs])
      | _ \<Rightarrow> [])"

definition cheerio_children :: "cheerioAPI \<Rightarrow> selection \<Rightarrow> selection" where
  "cheerio_children D sel = concat (map (elementChildren (root D)) sel)"

text \<open>\<^verbatim>\<open>.next()\<close>: the next element sibling of every element of the selection.\<close>

definition nextElementSibling :: "node \<Rightarrow> element \<Rightarrow> selection" where
  "nextElementSibling r p =
     (if p = [] then []
      else (case nodeAt r (butlast p) of
              Some (Element t as cs) \<Rightarrow>
                (case filter (\<lambda>j. isElement (cs ! j)) [Suc (last p)..<length cs] of
                   [] \<Rightarrow> []
                 | j # _ \<Rightarrow> [butlast p @ [j]])
            | _ \<Rightarrow> []))"

definition cheerio_next :: "cheerioAPI \<Rightarrow> selection \<Rightarrow> selection" where
  "cheerio_next D sel = concat (map (nextElementSibling (root D)) sel)"

text \<open>\<^verbatim>\<open>.eq(i)\<close> for \<open>i \<ge> 0\<close>.\<close>

definition cheerio_eq :: "selection \<Rightarrow> nat \<Rightarrow> selection" where
  "cheerio_eq sel i = (case index sel i of Val p \<Rightarrow> [p] | _ \<Rightarrow> [])"

text \<open>
  \<^verbatim>\<open>.map(fn).get()\<close>: cheerio calls \<open>fn\<close> on every element in order and leaves out the
  values that are \<^verbatim>\<open>null\<close> or \<^verbatim>\<open>undefined\<close> (\<open>None\<close> here); an exception of \<open>fn\<close>
  ends the call.
\<close>

fun cheerio_map :: "(element \<Rightarrow> error + 'a option) \<Rightarrow> selection \<Rightarrow> error + 'a list" where
  "cheerio_map fn [] = Inr []"
| "cheerio_map fn (el # els) =
     (case fn el of
        Inl e \<Rightarrow> Inl e
      | Inr val \<Rightarrow>
          (case cheerio_map fn els of
             Inl e \<Rightarrow> Inl e
           | Inr elems \<Rightarrow> Inr (case val of None \<Rightarrow> elems | Some v \<Rightarrow> v # elems)))"

text \<open>
  \<^verbatim>\<open>.map(fn)\<close> with a callback that also updates a variable of the enclosing function
  (the state \<open>s\<close>), and \<^verbatim>\<open>.each(fn)\<close>.
\<close>

fun cheerio_map_st ::
  "(element \<Rightarrow> 's \<Rightarrow> error + ('a option \<times> 's)) \<Rightarrow> selection \<Rightarrow> 's \<Rightarrow> error + ('a list \<times> 's)" where
  "cheerio_map_st fn [] s = Inr ([], s)"
| "cheerio_map_st fn (el # els) s =
     (case fn el s of
        Inl e \<Rightarrow> Inl e
      | Inr (val, s') \<Rightarrow>
          (case cheerio_map_st fn els s' of
             Inl e \<Rightarrow> Inl e
           | Inr (elems, s'') \<Rightarrow> Inr (case val of None \<Rightarrow> elems | Some v \<Rightarrow> v # elems, s'')))"

fun cheerio_each :: "(element \<Rightarrow> 's \<Rightarrow> error + 's) \<Rightarrow> selection \<Rightarrow> 's \<Rightarrow> error + 's" where
  "cheerio_each fn [] s = Inr s"
| "cheerio_each fn (el # els) s =
     (case fn el s of Inl e \<Rightarrow> Inl e | Inr s' \<Rightarrow> cheerio_each fn els s')"

text \<open>Sequencing of computations that may throw.\<close>

definition andThen :: "error + 'a \<Rightarrow> ('a \<Rightarrow> error + 'b) \<Rightarrow> error + 'b" where
  "andThen m f = (case m of Inl e \<Rightarrow> Inl e | Inr x \<Rightarrow> f x)"

section \<open>The environment\<close>

text \<open>
  What the runtime and the libraries decide is a parameter:
  \<^item> \<open>newURL E input base\<close> is \<^verbatim>\<open>new URL(input, base)\<close>, \<open>None\<close> when it throws a TypeError;
  \<^item> \<open>dateValue E s\<close> is the time value of \<^verbatim>\<open>new Date(s)\<close>, \<open>NaN\<close> for a string that is
    not recognised as a date; \<open>isoFormat E t\<close> is the ISO-8601 text of a finite time value;
  \<^item> \<open>axios_get E url\<close> is the page that \<^verbatim>\<open>axios.get(url)\<close> returns, loaded by cheerio;
  \<^item> \<open>crawl_get E url k\<close> is the page that the crawler passes to the request handler at its
    \<open>k\<close>-th attempt for \<open>url\<close> (also the page of a response such as a 404, which crawlee
    hands to the handler), or the error for which it counts the attempt as failed before the
    handler runs;
  \<^item> \<open>handlerTiming E url k\<close> says how the handler run of that attempt stands to crawlee's
    handler time-out (60 seconds by default; the source sets no time-out, neither for the
    handler nor for axios);
  \<^item> \<open>acceptsRequest\<close>, \<open>uniqueKey\<close> and \<open>maxRequestRetries\<close> are crawlee's validation of
    a request source, its de-duplication key and its retry bound;
  \<^item> \<open>camelCase\<close> is lodash's function;
  \<^item> \<open>parseFile E path\<close> are the events that the stream returned by
    \<^verbatim>\<open>fastcsv.parseFile(path, ...)\<close> emits, in order. This is the parser stream, into which
    fast-csv pipes the file stream: an error of the file stream itself (the file is not found)
    is not an event of it.
\<close>

text \<open>
  A handler run is \<open>InTime\<close> when it settles within the time-out. Otherwise crawlee counts
  the attempt as failed, while the run itself goes on (a promise is not cancelled): it is an
  \<open>Overrun\<close> when it settles before \<^verbatim>\<open>crawler.run\<close> resolves, and \<open>Unfinished\<close> when it
  has not settled by then.
\<close>

datatype timing = InTime | Overrun | Unfinished

record jsURL =
  protocol :: string
  host :: string
  href :: string

datatype csv_event = Data "(string \<times> string js) list" | Error error | End

record env =
  newURL :: "string \<Rightarrow> string option \<Rightarrow> jsURL option"
  dateValue :: "string \<Rightarrow> number"
  isoFormat :: "int \<Rightarrow> string"
  axios_get :: "string \<Rightarrow> error + cheerioAPI"
  crawl_get :: "string \<Rightarrow> nat \<Rightarrow> error + cheerioAPI"
  handlerTiming :: "string \<Rightarrow> nat \<Rightarrow> timing"
  acceptsRequest :: "string js \<Rightarrow> bool"
  uniqueKey :: "string \<Rightarrow> string"
  maxRequestRetries :: nat
  camelCase :: "string \<Rightarrow> string"
  parseFile :: "string \<Rightarrow> csv_event list"

text \<open>\<^verbatim>\<open>new Date(s).toISOString()\<close> throws a RangeError on an invalid date.\<close>

definition toISOString :: "env \<Rightarrow> number \<Rightarrow> error + string" where
  "toISOString E t = (case t of Num ms \<Rightarrow> Inr (isoFormat E ms) | _ \<Rightarrow> Inl RangeError)"

text \<open>\<^verbatim>\<open>new URL(input, base).href\<close>.\<close>

definition resolveHref :: "env \<Rightarrow> string \<Rightarrow> string \<Rightarrow> error + string" where
  "resolveHref E input base =
     (case newURL E input (Some base) of None \<Rightarrow> Inl TypeError | Some u \<Rightarrow> Inr (href u))"

section \<open>The records of the output\<close>

text \<open>The fields of a record carry a prefix that names the record.\<close>

record Company =
  c_companyName :: "string js"
  c_ycUrl :: "string js"

record Job =
  job_role :: string
  job_location :: "string js"
  job_salary :: "string js"
  job_equity :: "string js"
  job_eligibility :: "string js"

record News =
  news_title :: string
  news_link :: string
  news_date :: string

record LaunchPage =
  lp_votes :: number
  lp_createdAt :: "string js"
  lp_post :: string
  lp_sources :: "string list"

text \<open>
  A launch post is \<^verbatim>\<open>{ title, link, description, ...scrapedLaunchPage }\<close>: the fields of
  the scraped launch page and the three of the company page.
\<close>

record LaunchPost = LaunchPage +
  lp_title :: string
  lp_link :: string
  lp_description :: string

text \<open>
  \<^verbatim>\<open>SocialMedia\<close> and the founder objects are JavaScript objects with computed keys: maps
  from property names to values.
\<close>

type_synonym SocialMedia = "string \<rightharpoonup> string js"
type_synonym Founder = "string \<rightharpoonup> string js"

record Startup =
  s_name :: "string js"
  s_ycUrl :: string
  s_shortDescription :: "string js"
  s_description :: "string js"
  s_logo :: "string js"
  s_banner :: "string js"
  s_founded :: "string js"
  s_teamSize :: "number js"
  s_location :: "string js"
  s_url :: "string js"
  s_ycBatch :: "string js"
  s_badges :: "string list"
  s_numJobs :: number
  s_jobs :: "Job list"
  s_founders :: "Founder list"
  s_launchPosts :: "LaunchPost option list"
  s_socialMedia :: SocialMedia
  s_news :: "News list"
  s_images :: "string list"

section \<open>Field extractors\<close>

text \<open>Selectors whose source text has a backslash or a double quote.\<close>

definition backslash :: string where
  "backslash = [CHR 0x5C]"

definition dquote :: string where
  "dquote = [CHR 0x22]"

definition companyCardSelector :: string where
  "companyCardSelector =
     ''.ycdc-card.space-y-1'' @ backslash @ ''.5.sm'' @ backslash @ '':w-'' @ backslash
       @ ''[300px'' @ backslash @ ''] ''"

definition bannerSelector :: string where
  "bannerSelector =
     ''div.ycdc-card.space-y-1'' @ backslash @ ''.5.sm'' @ backslash @ '':w-'' @ backslash
       @ ''[300px'' @ backslash @ ''] img''"

definition shortDescriptionSelector :: string where
  "shortDescriptionSelector = ''.prose.hidden.max-w-full.md'' @ backslash @ '':block .text-xl''"

definition founderInfoSelector :: string where
  "founderInfoSelector = ''.flex.flex-row.flex-col.items-start.gap-3.md'' @ backslash @ '':flex-row''"

definition founderCardSelector :: string where
  "founderCardSelector =
     ''.ycdc-card.shrink-0.space-y-1'' @ backslash @ ''.5.sm'' @ backslash @ '':w-'' @ backslash
       @ ''[300px'' @ backslash @ '']''"

definition foundedSelector :: string where
  "foundedSelector =
     ''div.flex.flex-row.justify-between span:contains('' @ dquote @ ''Founded:'' @ dquote @ '') + span''"

definition teamSizeSelector :: string where
  "teamSizeSelector =
     ''div.flex.flex-row.justify-between span:contains('' @ dquote @ ''Team Size:'' @ dquote @ '') + span''"

definition locationSelector :: string where
  "locationSelector =
     ''div.flex.flex-row.justify-between span:contains('' @ dquote @ ''Location:'' @ dquote @ '') + span''"

definition batchSelector :: string where
  "batchSelector = ''.ycdc-badge:contains('' @ dquote @ ''Y Combinator Logo'' @ dquote @ '')''"

definition getName :: "cheerioAPI \<Rightarrow> string js" where
  "getName D = orNull (Val (trim (cheerio_text D (query D ''.prose.max-w-full h1''))))"

definition getFounded :: "cheerioAPI \<Rightarrow> string js" where
  "getFounded D =
     (let foundedElement = query D foundedSelector;
          founded = trim (cheerio_text D foundedElement)
      in orNull (Val founded))"

definition getTeamSize :: "cheerioAPI \<Rightarrow> number js" where
  "getTeamSize D =
     (let teamSizeElement = query D teamSizeSelector;
          teamSize = trim (cheerio_text D teamSizeElement);
          parsedTeamSize = parseInt10 teamSize
      in if parsedTeamSize = NaN then Null else Val parsedTeamSize)"

definition getCompanyUrl :: "cheerioAPI \<Rightarrow> string js" where
  "getCompanyUrl D =
     (let urlElement = query D ''div.group.flex.flex-row.items-center.px-3.leading-none.text-linkColor a''
      in if length urlElement > 0
         then (let url = cheerio_attr D urlElement ''href'' in if truthy url then url else Null)
         else Null)"

text \<open>
  \<^verbatim>\<open>$(this).attr("title")?.split(" ")[0].toLowerCase()\<close>: the optional chain gives
  \<^verbatim>\<open>undefined\<close> when the title is absent. \<^verbatim>\<open>socials[platform] = link\<close> converts
  \<open>platform\<close> to a property key: \<^verbatim>\<open>undefined\<close> becomes the key \<^verbatim>\<open>"undefined"\<close>.
\<close>

definition platformOf :: "string js \<Rightarrow> error + string js" where
  "platformOf t =
     (case t of
        Val s \<Rightarrow> (case index (split s '' '') 0 of Val w \<Rightarrow> Inr (Val (toLowerCase w)) | _ \<Rightarrow> Inl TypeError)
      | _ \<Rightarrow> Inr Undefined)"

fun propertyKey :: "string js \<Rightarrow> string" where
  "propertyKey Undefined = ''undefined''"
| "propertyKey Null = ''null''"
| "propertyKey (Val s) = s"

definition addSocial :: "cheerioAPI \<Rightarrow> element \<Rightarrow> SocialMedia \<Rightarrow> error + SocialMedia" where
  "addSocial D this socials =
     (let link = cheerio_attr D [this] ''href''
      in andThen (platformOf (cheerio_attr D [this] ''title''))
           (\<lambda>platform. Inr (socials(propertyKey platform \<mapsto> link))))"

definition getCompanySocials :: "cheerioAPI \<Rightarrow> error + SocialMedia" where
  "getCompanySocials D =
     (let parentElement = query D companyCardSelector
      in cheerio_each (addSocial D)
           (cheerio_find D parentElement ''> .space-x-2 a.inline-block.w-5.h-5.bg-contain'')
           Map.empty)"

definition getLocation :: "cheerioAPI \<Rightarrow> string js" where
  "getLocation D = orNull (Val (trim (cheerio_text D (query D locationSelector))))"

definition getNumJobs :: "cheerioAPI \<Rightarrow> number" where
  "getNumJobs D =
     (let numJobsString = trim (cheerio_text D (query D ''.ycdc-badge.ml-0.font-bold.no-underline''));
          cleanedNumJobsString = removeNonDigits numJobsString
      in parseInt10 cleanedNumJobsString)"

definition getDescription :: "cheerioAPI \<Rightarrow> string js" where
  "getDescription D = orNull (Val (trim (cheerio_text D (query D ''p.whitespace-pre-line''))))"

definition getImages :: "cheerioAPI \<Rightarrow> error + string list" where
  "getImages D =
     cheerio_map
       (\<lambda>this. let src = cheerio_attr D [this] ''src''
               in Inr (Some (case src of Val s \<Rightarrow> s | _ \<Rightarrow> [])))
       (query D ''img'')"

definition getCompanyLogo :: "cheerioAPI \<Rightarrow> string js" where
  "getCompanyLogo D =
     orNull (cheerio_attr D (query D ''div.h-32.w-32.shrink-0.clip-circle-32 img'') ''src'')"

definition getBannerUrl :: "cheerioAPI \<Rightarrow> string js" where
  "getBannerUrl D = orNull (cheerio_attr D (query D bannerSelector) ''src'')"

text \<open>
  \<^verbatim>\<open>text.split("Y Combinator Logo")[1].trim()\<close> throws a TypeError when the array has no
  second element.
\<close>

definition afterLogo :: "string \<Rightarrow> error + string" where
  "afterLogo s =
     (case index (split s ''Y Combinator Logo'') 1 of Val piece \<Rightarrow> Inr (trim piece) | _ \<Rightarrow> Inl TypeError)"

definition getBadges :: "cheerioAPI \<Rightarrow> error + string list" where
  "getBadges D =
     cheerio_map
       (\<lambda>this. let text = trim (cheerio_text D [this])
               in if str_includes text ''Y Combinator Logo''
                  then andThen (afterLogo text) (\<lambda>badge. Inr (Some badge))
                  else Inr (Some text))
       (query D ''.align-center.flex.flex-row.flex-wrap.gap-y-2.gap-x-2 .ycdc-badge'')"

definition getShortDescription :: "cheerioAPI \<Rightarrow> string js" where
  "getShortDescription D = orNull (Val (trim (cheerio_text D (query D shortDescriptionSelector))))"

definition getBatch :: "cheerioAPI \<Rightarrow> error + string js" where
  "getBatch D =
     (let ycBatchElement = query D batchSelector
      in if length ycBatchElement > 0
         then andThen (afterLogo (trim (cheerio_text D ycBatchElement))) (\<lambda>batch. Inr (Val batch))
         else Inr Null)"

section \<open>Launch posts\<close>

definition getBaseUrl :: "env \<Rightarrow> string \<Rightarrow> error + string" where
  "getBaseUrl E ycUrl =
     (case newURL E ycUrl None of
        None \<Rightarrow> Inl TypeError
      | Some url \<Rightarrow> Inr (protocol url @ ''//'' @ host url))"

text \<open>\<^verbatim>\<open>[...new Set(sources)]\<close>: a Set keeps its elements in the order of their insertion.\<close>

definition setAdd :: "'a list \<Rightarrow> 'a \<Rightarrow> 'a list" where
  "setAdd s x = (if x \<in> set s then s else s @ [x])"

definition newSet :: "'a list \<Rightarrow> 'a list" where
  "newSet xs = foldl setAdd [] xs"

text \<open>
  The callback of \<^verbatim>\<open>bodyContent.children().map(...)\<close>: it returns the fragment of the child
  and pushes a media URL to \<open>sources\<close>, the array of the enclosing function.
\<close>

definition bodyChild ::
  "env \<Rightarrow> cheerioAPI \<Rightarrow> string \<Rightarrow> element \<Rightarrow> string list \<Rightarrow> error + (string option \<times> string list)" where
  "bodyChild E D baseUrl element sources =
     (let childElement = [element];
          textContent = trim (cheerio_text D childElement)
      in if length textContent > 0 then Inr (Some textContent, sources)
         else (let imgSrc = cheerio_attr D (cheerio_find D childElement ''img'') ''src'';
                   iframeSrc = cheerio_attr D (cheerio_find D childElement ''iframe'') ''src''
               in if truthy imgSrc
                  then andThen (resolveHref E (strOf imgSrc) baseUrl)
                         (\<lambda>src. Inr (Some src, sources @ [src]))
                  else if truthy iframeSrc
                  then andThen (resolveHref E (strOf iframeSrc) baseUrl)
                         (\<lambda>src. Inr (Some src, sources @ [src]))
                  else Inr (Some [], sources)))"

definition scrapeLaunchPage :: "env \<Rightarrow> string \<Rightarrow> error + LaunchPage" where
  "scrapeLaunchPage E url =
     andThen (axios_get E url) (\<lambda>D.
     andThen (getBaseUrl E url) (\<lambda>baseUrl.
       let bodyContent = query D ''div.launch-container > div:not([class])''
       in andThen (cheerio_map_st (bodyChild E D baseUrl) (cheerio_children D bodyContent) [])
            (\<lambda>(fragments, sources).
               let post = join fragments '' '';
                   votesParse = parseInt10 (trim (cheerio_text D (query D ''.vote-count-container div:last-child'')));
                   votes = (if votesParse = NaN then Null else Val votesParse);
                   createdAt = cheerio_attr D (query D ''.timeago'') ''datetime''
               in Inr \<lparr>lp_votes = (case votes of Val n \<Rightarrow> if truthyNumber n then n else Num 0 | _ \<Rightarrow> Num 0),
                        lp_createdAt = createdAt,
                        lp_post = post,
                        lp_sources = newSet sources\<rparr>)))"

text \<open>
  The callback of \<^verbatim>\<open>launchContainers.map(async function ...)\<close> returns a promise, which is
  never \<^verbatim>\<open>null\<close>: cheerio keeps one promise per container, and \<^verbatim>\<open>Promise.all\<close> gives
  their values in order, or the rejection of the first that rejects.
\<close>

definition launchCallback :: "env \<Rightarrow> cheerioAPI \<Rightarrow> string \<Rightarrow> element \<Rightarrow> error + LaunchPost option" where
  "launchCallback E D baseUrl this =
     (let launchContainer = [this];
          title = trim (cheerio_text D (cheerio_find D launchContainer ''h3''));
          relativeLink = cheerio_attr D (cheerio_find D launchContainer ''a:contains('Read Launch')'') ''href''
      in andThen (if truthy relativeLink
                  then andThen (resolveHref E (strOf relativeLink) baseUrl) (\<lambda>h. Inr (Val h))
                  else Inr Null)
           (\<lambda>link.
              let description =
                    trim (cheerio_text D (cheerio_find D launchContainer ''.prose.max-w-full.whitespace-pre-line''))
              in if title = [] \<or> description = [] \<or> falsy link then Inr None
                 else andThen (scrapeLaunchPage E (strOf link))
                        (\<lambda>scrapedLaunchPage.
                           Inr (Some \<lparr>lp_votes = lp_votes scrapedLaunchPage,
                                       lp_createdAt = lp_createdAt scrapedLaunchPage,
                                       lp_post = lp_post scrapedLaunchPage,
                                       lp_sources = lp_sources scrapedLaunchPage,
                                       lp_title = title,
                                       lp_link = strOf link,
                                       lp_description = description\<rparr>))))"

fun Promise_all :: "(error + 'a) list \<Rightarrow> error + 'a list" where
  "Promise_all [] = Inr []"
| "Promise_all (p # ps) =
     (case p of
        Inl e \<Rightarrow> Inl e
      | Inr v \<Rightarrow> (case Promise_all ps of Inl e \<Rightarrow> Inl e | Inr vs \<Rightarrow> Inr (v # vs)))"

definition getAllLaunchPosts :: "env \<Rightarrow> cheerioAPI \<Rightarrow> string \<Rightarrow> error + LaunchPost option list" where
  "getAllLaunchPosts E D baseUrl =
     (let launchContainers = query D ''.company-launch'';
          launchPromises = map (launchCallback E D baseUrl) launchContainers
      in Promise_all launchPromises)"

section \<open>News, jobs and founders\<close>

definition newsCallback :: "env \<Rightarrow> cheerioAPI \<Rightarrow> element \<Rightarrow> error + News option" where
  "newsCallback E D this =
     (let titleElement = cheerio_find D [this] ''a.prose.font-medium'';
          title = orNull (Val (trim (cheerio_text D titleElement)));
          link = orNull (cheerio_attr D titleElement ''href'');
          dateString = orNull (Val (trim (cheerio_text D (cheerio_next D [this]))))
      in andThen (if truthy dateString
                  then andThen (toISOString E (dateValue E (strOf dateString))) (\<lambda>iso. Inr (Val iso))
                  else Inr Null)
           (\<lambda>date.
              if falsy title \<or> falsy link \<or> falsy date then Inr None
              else Inr (Some \<lparr>news_title = strOf title, news_link = strOf link, news_date = strOf date\<rparr>)))"

definition getNews :: "env \<Rightarrow> cheerioAPI \<Rightarrow> error + News list" where
  "getNews E D = cheerio_map (newsCallback E D) (query D ''#news div.ycdc-with-link-color'')"

definition jobCallback :: "cheerioAPI \<Rightarrow> element \<Rightarrow> error + Job option" where
  "jobCallback D this =
     (let jobContainer = [this];
          role = trim (cheerio_text D
                   (cheerio_find D jobContainer ''.ycdc-with-link-color.pr-4.text-lg.font-bold a''));
          location = orNull (Val (trim (cheerio_text D
                       (cheerio_find D jobContainer ''.justify-left .list-item:first-child''))));
          salary = orNull (Val (trim (cheerio_text D
                     (cheerio_find D jobContainer ''.justify-left .list-item:nth-child(2)''))));
          equity = orNull (Val (trim (cheerio_text D
                     (cheerio_find D jobContainer ''.justify-left .list-item:nth-child(3)''))));
          eligibility = orNull (Val (trim (cheerio_text D
                          (cheerio_find D jobContainer ''.justify-left .list-item:nth-child(4)''))))
      in Inr (Some \<lparr>job_role = role, job_location = location, job_salary = salary,
                     job_equity = equity, job_eligibility = eligibility\<rparr>))"

definition getJobs :: "cheerioAPI \<Rightarrow> error + Job list" where
  "getJobs D = cheerio_map (jobCallback D) (query D ''.flex.w-full.flex-row.justify-between.py-4'')"

text \<open>
  \<^verbatim>\<open>{ name, imageUrl, position, description, ...socials }\<close>: the properties of
  \<open>socials\<close> are copied last.
\<close>

definition founderObject :: "string \<Rightarrow> string js \<Rightarrow> string \<Rightarrow> string js \<Rightarrow> SocialMedia \<Rightarrow> Founder" where
  "founderObject name imageUrl position description socials =
     [''name'' \<mapsto> Val name, ''imageUrl'' \<mapsto> imageUrl, ''position'' \<mapsto> Val position,
      ''description'' \<mapsto> description] ++ socials"

definition founderInfoCallback :: "cheerioAPI \<Rightarrow> element \<Rightarrow> error + Founder option" where
  "founderInfoCallback D this =
     (let founderContainer = [this];
          founderCard = cheerio_find D [this] founderCardSelector;
          name = trim (cheerio_text D (cheerio_find D founderCard ''.font-bold''));
          imageUrl = cheerio_attr D (cheerio_find D founderCard ''img'') ''src'';
          position = trim (cheerio_text D
                       (cheerio_eq (cheerio_children D (cheerio_find D founderCard ''.leading-snug'')) 1))
      in andThen (cheerio_each (addSocial D) (cheerio_find D founderCard ''a.h-5.w-5.bg-contain'') Map.empty)
           (\<lambda>socials.
              let description = orNull (Val (trim (cheerio_text D
                                  (cheerio_find D founderContainer ''.prose.max-w-full''))))
              in Inr (Some (founderObject name imageUrl position description socials))))"

definition founderCardCallback :: "cheerioAPI \<Rightarrow> element \<Rightarrow> error + Founder option" where
  "founderCardCallback D this =
     (let name = trim (cheerio_text D (cheerio_find D [this] ''.font-bold''));
          imageUrl = cheerio_attr D (cheerio_find D [this] ''img'') ''src'';
          position = trim (cheerio_text D
                       (cheerio_eq (cheerio_children D (cheerio_find D [this] ''.leading-snug'')) 1))
      in andThen (cheerio_each (addSocial D) (cheerio_find D [this] ''a.h-5.w-5.bg-contain'') Map.empty)
           (\<lambda>socials. Inr (Some (founderObject name imageUrl position Null socials))))"

definition getFounders :: "cheerioAPI \<Rightarrow> error + Founder list" where
  "getFounders D =
     (let founderInfo = query D founderInfoSelector;
          founderCard = query D founderCardSelector
      in if length founderInfo > 0 then cheerio_map (founderInfoCallback D) founderInfo
         else cheerio_map (founderCardCallback D) founderCard)"

section \<open>The crawl\<close>

text \<open>
  The request handler of \<^verbatim>\<open>scrapeCompanyPages\<close>: the extractors run in the order of the
  source, the first exception ends the handler, and its last statement pushes one record to
  \<open>scrapedData\<close>.
\<close>

definition requestHandler :: "env \<Rightarrow> cheerioAPI \<Rightarrow> string \<Rightarrow> Startup list \<Rightarrow> error + Startup list" where
  "requestHandler E D request_url scrapedData =
     (let ycUrl = request_url;
          name = getName D;
          founded = getFounded D
      in andThen (getJobs D) (\<lambda>jobs.
         andThen (getFounders D) (\<lambda>founders.
         andThen (getCompanySocials D) (\<lambda>socialMedia.
           let numJobs = getNumJobs D;
               teamSize = getTeamSize D;
               location = getLocation D;
               description = getDescription D;
               shortDescription = getShortDescription D;
               url = getCompanyUrl D
           in andThen (getBadges D) (\<lambda>badges.
              andThen (getBatch D) (\<lambda>ycBatch.
                let logo = getCompanyLogo D;
                    banner = getBannerUrl D
                in andThen (getNews E D) (\<lambda>news.
                   andThen (andThen (getBaseUrl E ycUrl) (getAllLaunchPosts E D)) (\<lambda>launchPosts.
                   andThen (getImages D) (\<lambda>images.
                     Inr (scrapedData @
                       [\<lparr>s_name = name, s_ycUrl = ycUrl, s_shortDescription = shortDescription,
                         s_description = description, s_logo = logo, s_banner = banner,
                         s_founded = founded, s_teamSize = teamSize, s_location = location,
                         s_url = url, s_ycBatch = ycBatch, s_badges = badges, s_numJobs = numJobs,
                         s_jobs = jobs, s_founders = founders, s_launchPosts = launchPosts,
                         s_socialMedia = socialMedia, s_news = news, s_images = images\<rparr>]))))))))))"







section \<open>The input list\<close>

text \<open>
  \<^verbatim>\<open>parseCompanyList\<close> registers two listeners for each of the events \<^verbatim>\<open>error\<close> and
  \<^verbatim>\<open>end\<close> of the fast-csv stream (the first logs, the second settles the promise) and one
  for \<^verbatim>\<open>data\<close>. The state is the array \<^verbatim>\<open>companies\<close>, the console and the promise, which
  keeps the first settlement. The stream's events are processed up to its \<^verbatim>\<open>end\<close>.
\<close>

datatype console_line = ConsoleError error | ParsedCompanies nat

record parseState =
  st_companies :: "Company list"
  st_console :: "console_line list"
  st_settled :: "(error + Company list) option"

text \<open>
  \<^verbatim>\<open>Object.fromEntries\<close> keeps the last entry of a key; a property that is missing reads
  as \<^verbatim>\<open>undefined\<close>.
\<close>

definition property :: "(string \<times> string js) list \<Rightarrow> string \<Rightarrow> string js" where
  "property entries key = (case map_of (rev entries) key of Some v \<Rightarrow> v | None \<Rightarrow> Undefined)"

definition toCompany :: "env \<Rightarrow> (string \<times> string js) list \<Rightarrow> Company" where
  "toCompany E data =
     (let camelCasedData = map (\<lambda>(key, value). (camelCase E key, value)) data
      in \<lparr>c_companyName = property camelCasedData ''companyName'',
          c_ycUrl = property camelCasedData ''ycUrl''\<rparr>)"

definition settle :: "error + Company list \<Rightarrow> parseState \<Rightarrow> parseState" where
  "settle outcome st =
     (case st_settled st of None \<Rightarrow> st\<lparr>st_settled := Some outcome\<rparr> | Some r \<Rightarrow> st)"

definition onData :: "env \<Rightarrow> (string \<times> string js) list \<Rightarrow> parseState \<Rightarrow> parseState" where
  "onData E data st = st\<lparr>st_companies := st_companies st @ [toCompany E data]\<rparr>"

definition onError :: "error \<Rightarrow> parseState \<Rightarrow> parseState" where
  "onError e st = settle (Inl e) (st\<lparr>st_console := st_console st @ [ConsoleError e]\<rparr>)"

definition onEnd :: "parseState \<Rightarrow> parseState" where
  "onEnd st =
     settle (Inr (st_companies st))
       (st\<lparr>st_console := st_console st @ [ParsedCompanies (length (st_companies st))]\<rparr>)"

fun runStream :: "env \<Rightarrow> csv_event list \<Rightarrow> parseState \<Rightarrow> parseState" where
  "runStream E [] st = st"
| "runStream E (Data data # events) st = runStream E events (onData E data st)"
| "runStream E (Error e # events) st = runStream E events (onError e st)"
| "runStream E (End # events) st = onEnd st"

definition parseCompanyList :: "env \<Rightarrow> string \<Rightarrow> string \<Rightarrow> parseState" where
  "parseCompanyList E dirname csvPath =
     runStream E (parseFile E csvPath) \<lparr>st_companies = [], st_console = [], st_settled = None\<rparr>"

section \<open>Reference definitions for the properties\<close>

text \<open>
  The news item that a matched element stands for: none when its title text is empty, its
  link is absent or empty, or no date can be derived from the text of its next sibling.
\<close>

definition newsItemOf :: "env \<Rightarrow> cheerioAPI \<Rightarrow> element \<Rightarrow> News option" where
  "newsItemOf E D el =
     (let t = trim (cheerio_text D (cheerio_find D [el] ''a.prose.font-medium''));
          l = cheerio_attr D (cheerio_find D [el] ''a.prose.font-medium'') ''href'';
          d = trim (cheerio_text D (cheerio_next D [el]))
      in if t = [] \<or> falsy l \<or> d = [] then None
         else (case dateValue E d of
                 Num ms \<Rightarrow>
                   if isoFormat E ms = [] then None
                   else Some \<lparr>news_title = t, news_link = strOf l, news_date = isoFormat E ms\<rparr>
               | _ \<Rightarrow> None))"

text \<open>
  An integer can be parsed from a text when the text begins, after at most one sign, with a
  decimal digit.
\<close>

definition startsWithInteger :: "string \<Rightarrow> bool" where
  "startsWithInteger t =
     (case t of
        [] \<Rightarrow> False
      | c # cs \<Rightarrow>
          if c = CHR ''+'' \<or> c = CHR ''-'' then (case cs of [] \<Rightarrow> False | d # _ \<Rightarrow> isDigit d)
          else isDigit c)"

text \<open>
  A launch container is incomplete when its title is empty, its \<^verbatim>\<open>Read Launch\<close> link is
  absent (or empty), or its description is empty.
\<close>

definition launchTitle :: "cheerioAPI \<Rightarrow> element \<Rightarrow> string" where
  "launchTitle D el = trim (cheerio_text D (cheerio_find D [el] ''h3''))"

definition launchRelativeLink :: "cheerioAPI \<Rightarrow> element \<Rightarrow> string js" where
  "launchRelativeLink D el = cheerio_attr D (cheerio_find D [el] ''a:contains('Read Launch')'') ''href''"

definition launchDescription :: "cheerioAPI \<Rightarrow> element \<Rightarrow> string" where
  "launchDescription D el =
     trim (cheerio_text D (cheerio_find D [el] ''.prose.max-w-full.whitespace-pre-line''))"

definition launchIncomplete :: "cheerioAPI \<Rightarrow> element \<Rightarrow> bool" where
  "launchIncomplete D el =
     (launchTitle D el = [] \<or> falsy (launchRelativeLink D el) \<or> launchDescription D el = [])"

text \<open>
  The media URL that a child of the body contributes (none when the child has text of its
  own), the fragment of the body that it contributes (its text, else its media URL, else the
  empty string), the media URLs of the children in the order of the walk, and the elements
  of a list in the order of their first occurrence.
\<close>

definition childMedia :: "env \<Rightarrow> cheerioAPI \<Rightarrow> string \<Rightarrow> element \<Rightarrow> string list" where
  "childMedia E D baseUrl el =
     (let img = cheerio_attr D (cheerio_find D [el] ''img'') ''src'';
          iframe = cheerio_attr D (cheerio_find D [el] ''iframe'') ''src'';
          media = (if truthy img then Val (strOf img) else if truthy iframe then Val (strOf iframe) else Null)
      in if trim (cheerio_text D [el]) = [] \<and> truthy media
         then (case resolveHref E (strOf media) baseUrl of Inr u \<Rightarrow> [u] | Inl e \<Rightarrow> [])
         else [])"

definition childFragment :: "env \<Rightarrow> cheerioAPI \<Rightarrow> string \<Rightarrow> element \<Rightarrow> string" where
  "childFragment E D baseUrl el =
     (if trim (cheerio_text D [el]) \<noteq> [] then trim (cheerio_text D [el])
      else (case childMedia E D baseUrl el of [] \<Rightarrow> [] | u # _ \<Rightarrow> u))"

definition mediaUrls :: "env \<Rightarrow> cheerioAPI \<Rightarrow> string \<Rightarrow> selection \<Rightarrow> string list" where
  "mediaUrls E D baseUrl els = concat (map (childMedia E D baseUrl) els)"

fun firstOccurrences :: "'a list \<Rightarrow> 'a list" where
  "firstOccurrences [] = []"
| "firstOccurrences (x # xs) = x # firstOccurrences (filter (\<lambda>y. y \<noteq> x) xs)"

section \<open>Example pages and an example environment\<close>

text \<open>
  Small pages on which the extractors are run. Each comes with the answers of the selector
  engine on it: every selector of \<^verbatim>\<open>utils.ts\<close> that is not listed matches nothing there.
\<close>

text \<open>
  A launch page: the body container has a paragraph with the text \<^verbatim>\<open>Hello\<close> and a
  paragraph that only holds an image; there is no vote counter and no time stamp.
\<close>

definition launchPage :: cheerioAPI where
  "launchPage =
     \<lparr>root = Element ''html'' []
        [Element ''div'' [(''class'', ''launch-container'')]
          [Element ''div'' []
            [Element ''p'' [] [Text ''Hello''],
             Element ''p'' [] [Element ''img'' [(''src'', ''/img.png'')] []]]]],
      select = (\<lambda>ctx s.
        if ctx = [[]] \<and> s = ''div.launch-container > div:not([class])'' then [[0, 0]]
        else if ctx = [[0, 0, 1]] \<and> s = ''img'' then [[0, 0, 1, 0]]
        else [])\<rparr>"

text \<open>
  A second launch page: text, an image, an embedded frame, the same image again and an empty
  paragraph, with a vote counter and a time stamp.
\<close>

definition galleryPage :: cheerioAPI where
  "galleryPage =
     \<lparr>root = Element ''html'' []
        [Element ''div'' [(''class'', ''launch-container'')]
          [Element ''div'' []
            [Element ''p'' [] [Text ''Intro''],
             Element ''p'' [] [Element ''img'' [(''src'', ''/a.png'')] []],
             Element ''div'' [(''class'', ''video'')] [Element ''iframe'' [(''src'', ''/video'')] []],
             Element ''p'' [] [Element ''img'' [(''src'', ''/a.png'')] []],
             Element ''p'' [] []]],
         Element ''div'' [(''class'', ''vote-count-container'')]
          [Element ''div'' [] [Text ''up''], Element ''div'' [] [Text '' 17 '']],
         Element ''time'' [(''class'', ''timeago''), (''datetime'', ''2024-01-01T00:00:00Z'')] []],
      select = (\<lambda>ctx s.
        if ctx = [[]] \<and> s = ''div.launch-container > div:not([class])'' then [[0, 0]]
        else if ctx = [[]] \<and> s = ''.vote-count-container div:last-child'' then [[1, 1]]
        else if ctx = [[]] \<and> s = ''.timeago'' then [[2]]
        else if ctx = [[0, 0, 1]] \<and> s = ''img'' then [[0, 0, 1, 0]]
        else if ctx = [[0, 0, 2]] \<and> s = ''iframe'' then [[0, 0, 2, 0]]
        else if ctx = [[0, 0, 3]] \<and> s = ''img'' then [[0, 0, 3, 0]]
        else [])\<rparr>"

text \<open>
  A company page: a founder card without an image, a launch container with title, link and
  description, and an empty launch container. It has no job badge.
\<close>

definition companyPage :: cheerioAPI where
  "companyPage =
     \<lparr>root = Element ''html'' []
        [Element ''div'' [(''class'', ''ycdc-card shrink-0 space-y-1.5 sm:w-[300px]'')]
          [Element ''div'' [(''class'', ''font-bold'')] [Text ''Ada'']],
         Element ''div'' [(''class'', ''company-launch'')]
          [Element ''h3'' [] [Text ''Hello launch''],
           Element ''a'' [(''href'', ''/launches/hello'')] [Text ''Read Launch''],
           Element ''div'' [(''class'', ''prose max-w-full whitespace-pre-line'')] [Text ''We launched'']],
         Element ''div'' [(''class'', ''company-launch'')] []],
      select = (\<lambda>ctx s.
        if ctx = [[]] \<and> (s = founderCardSelector \<or> s = companyCardSelector) then [[0]]
        else if ctx = [[]] \<and> s = ''.company-launch'' then [[1], [2]]
        else if ctx = [[0]] \<and> s = ''.font-bold'' then [[0, 0]]
        else if ctx = [[1]] \<and> s = ''h3'' then [[1, 0]]
        else if ctx = [[1]] \<and> s = ''a:contains('Read Launch')'' then [[1, 1]]
        else if ctx = [[1]] \<and> s = ''.prose.max-w-full.whitespace-pre-line'' then [[1, 2]]
        else [])\<rparr>"

text \<open>The page of a 404 response: no selector of \<^verbatim>\<open>utils.ts\<close> matches on it.\<close>

definition notFoundPage :: cheerioAPI where
  "notFoundPage =
     \<lparr>root = Element ''html'' [] [Element ''h1'' [] [Text ''404 Not Found'']],
      select = (\<lambda>ctx s. [])\<rparr>"

text \<open>A page with one launch container that has neither title, link nor description.\<close>

definition emptyLaunchPage :: cheerioAPI where
  "emptyLaunchPage =
     \<lparr>root = Element ''html'' [] [Element ''div'' [(''class'', ''company-launch'')] []],
      select = (\<lambda>ctx s. if ctx = [[]] \<and> s = ''.company-launch'' then [[0]] else [])\<rparr>"

text \<open>
  News pages: two news elements, each followed by its date, the second without a link; and
  one news element followed by the text \<^verbatim>\<open>soon\<close>.
\<close>

definition newsPage :: cheerioAPI where
  "newsPage =
     \<lparr>root = Element ''html'' []
        [Element ''div'' [(''id'', ''news'')]
          [Element ''div'' [(''class'', ''ycdc-with-link-color'')]
            [Element ''a'' [(''class'', ''prose font-medium''), (''href'', ''/first'')] [Text ''First'']],
           Element ''div'' [] [Text ''2024-01-01''],
           Element ''div'' [(''class'', ''ycdc-with-link-color'')]
            [Element ''a'' [(''class'', ''prose font-medium'')] [Text ''Second'']],
           Element ''div'' [] [Text ''2024-01-01'']]],
      select = (\<lambda>ctx s.
        if ctx = [[]] \<and> s = ''#news div.ycdc-with-link-color'' then [[0, 0], [0, 2]]
        else if ctx = [[0, 0]] \<and> s = ''a.prose.font-medium'' then [[0, 0, 0]]
        else if ctx = [[0, 2]] \<and> s = ''a.prose.font-medium'' then [[0, 2, 0]]
        else [])\<rparr>"

definition undatedNewsPage :: cheerioAPI where
  "undatedNewsPage =
     \<lparr>root = Element ''html'' []
        [Element ''div'' [(''id'', ''news'')]
          [Element ''div'' [(''class'', ''ycdc-with-link-color'')]
            [Element ''a'' [(''class'', ''prose font-medium''), (''href'', ''/first'')] [Text ''First'']],
           Element ''div'' [] [Text ''soon'']]],
      select = (\<lambda>ctx s.
        if ctx = [[]] \<and> s = ''#news div.ycdc-with-link-color'' then [[0, 0]]
        else if ctx = [[0, 0]] \<and> s = ''a.prose.font-medium'' then [[0, 0, 0]]
        else [])\<rparr>"

text \<open>A page whose team-size value reads \<^verbatim>\<open>Team Size: 42 people\<close>.\<close>

definition teamPage :: cheerioAPI where
  "teamPage =
     \<lparr>root = Element ''html'' []
        [Element ''div'' [(''class'', ''flex flex-row justify-between'')]
          [Element ''span'' [] [Text ''Team Size:''],
           Element ''span'' [] [Text ''Team Size: 42 people'']]],
      select = (\<lambda>ctx s. if ctx = [[]] \<and> s = teamSizeSelector then [[0, 1]] else [])\<rparr>"

text \<open>A page with a job badge that reads \<^verbatim>\<open>~42 people\<close> and a team size \<^verbatim>\<open>42 people\<close>.\<close>

definition jobsPage :: cheerioAPI where
  "jobsPage =
     \<lparr>root = Element ''html'' []
        [Element ''div'' [(''class'', ''flex flex-row justify-between'')]
          [Element ''span'' [] [Text ''Team Size:''],
           Element ''span'' [] [Text ''42 people'']],
         Element ''a'' [(''class'', ''ycdc-badge ml-0 font-bold no-underline'')] [Text '' ~42 people '']],
      select = (\<lambda>ctx s.
        if ctx = [[]] \<and> s = teamSizeSelector then [[0, 1]]
        else if ctx = [[]] \<and> s = ''.ycdc-badge.ml-0.font-bold.no-underline'' then [[1]]
        else [])\<rparr>"

text \<open>A company card with two social links, the first without a title attribute.\<close>

definition socialPage :: cheerioAPI where
  "socialPage =
     \<lparr>root = Element ''html'' []
        [Element ''div'' [(''class'', ''ycdc-card space-y-1.5 sm:w-[300px]'')]
          [Element ''div'' [(''class'', ''space-x-2'')]
            [Element ''a'' [(''class'', ''inline-block w-5 h-5 bg-contain''),
                            (''href'', ''https://twitter.com/acme'')] [],
             Element ''a'' [(''class'', ''inline-block w-5 h-5 bg-contain''),
                            (''href'', ''https://linkedin.com/company/acme''),
                            (''title'', ''LinkedIn profile'')] []]]],
      select = (\<lambda>ctx s.
        if ctx = [[]] \<and> s = companyCardSelector then [[0]]
        else if ctx = [[0]] \<and> s = ''> .space-x-2 a.inline-block.w-5.h-5.bg-contain''
        then [[0, 0, 0], [0, 0, 1]]
        else [])\<rparr>"

text \<open>
  An environment for the host \<^verbatim>\<open>https://example.com\<close>: URLs are resolved for absolute
  paths only, one date is recognised, the launch pages and the company page are the pages
  above, the company \<^verbatim>\<open>gone\<close> answers with the 404 page and every other company fails to
  load, and no handler exceeds the time-out. \<^verbatim>\<open>companies.csv\<close> has two rows,
  \<^verbatim>\<open>broken.csv\<close> a malformed second row, and the parser stream of any other file emits
  nothing. \<open>slowEnv\<close> differs in one point: the first handler run of every request
  overruns the time-out.
\<close>

definition exampleURL :: "string \<Rightarrow> string option \<Rightarrow> jsURL option" where
  "exampleURL input base =
     (case base of
        None \<Rightarrow>
          if prefix ''https://example.com/'' input
          then Some \<lparr>protocol = ''https:'', host = ''example.com'', href = input\<rparr>
          else None
      | Some b \<Rightarrow>
          if b = ''https://example.com'' \<and> prefix ''/'' input
          then Some \<lparr>protocol = ''https:'', host = ''example.com'', href = b @ input\<rparr>
          else None)"

definition exampleRow :: "string \<Rightarrow> string \<Rightarrow> (string \<times> string js) list" where
  "exampleRow n u = [(''Company Name'', Val n), (''YC URL'', Val u)]"

definition exampleEnv :: env where
  "exampleEnv =
     \<lparr>newURL = exampleURL,
      dateValue = (\<lambda>s. if s = ''2024-01-01'' then Num 1704067200000 else NaN),
      isoFormat = (\<lambda>t.
        if t = 1704067200000 then ''2024-01-01T00:00:00.000Z'' else ''1970-01-01T00:00:00.000Z''),
      axios_get = (\<lambda>u.
        if u = ''https://example.com/launches/hello'' then Inr launchPage
        else if u = ''https://example.com/launches/gallery'' then Inr galleryPage
        else Inl NetworkError),
      crawl_get = (\<lambda>u k.
        if u = ''https://example.com/companies/acme'' then Inr companyPage
        else if u = ''https://example.com/companies/gone'' then Inr notFoundPage
        else Inl NetworkError),
      handlerTiming = (\<lambda>u k. InTime),
      acceptsRequest = (\<lambda>src. True),
      uniqueKey = (\<lambda>u. u),
      maxRequestRetries = 3,
      camelCase = (\<lambda>k.
        if k = ''Company Name'' then ''companyName'' else if k = ''YC URL'' then ''ycUrl'' else k),
      parseFile = (\<lambda>path.
        if path = ''companies.csv''
        then [Data (exampleRow ''Acme'' ''https://example.com/companies/acme''),
              Data (exampleRow ''Beta'' ''https://example.com/companies/beta''), End]
        else if path = ''broken.csv''
        then [Data (exampleRow ''Acme'' ''https://example.com/companies/acme''), Error MalformedRow]
        else [])\<rparr>"


text \<open>The records of the company page and of the 404 page.\<close>

definition acmeRecord :: Startup where
  "acmeRecord =
     \<lparr>s_name = Null, s_ycUrl = ''https://example.com/companies/acme'', s_shortDescription = Null,
      s_description = Null, s_logo = Null, s_banner = Null, s_founded = Null, s_teamSize = Null,
      s_location = Null, s_url = Null, s_ycBatch = Null, s_badges = [], s_numJobs = NaN,
      s_jobs = [], s_founders = [founderObject ''Ada'' Undefined [] Null Map.empty],
      s_launchPosts =
        [Some \<lparr>lp_votes = Num 0, lp_createdAt = Undefined,
                lp_post = ''Hello https://example.com/img.png'',
                lp_sources = [''https://example.com/img.png''],
                lp_title = ''Hello launch'', lp_link = ''https://example.com/launches/hello'',
                lp_description = ''We launched''\<rparr>, None],
      s_socialMedia = Map.empty, s_news = [], s_images = []\<rparr>"


section \<open>Evaluation on the example pages\<close>

lemmas js_defs = orNull_def isWhiteSpace_def trimStart_def trim_def lowerChar_def toLowerCase_def
  split_def isDigit_def digitVal_def decimal_def parseInt10_def removeNonDigits_def
  roundToDouble_def toNumber_def char_of_def bit_Suc_0_iff andThen_def

lemmas cheerio_defs = cheerio_find_def query_def cheerio_text_def cheerio_attr_def
  elementChildren_def cheerio_children_def nextElementSibling_def cheerio_next_def cheerio_eq_def

lemmas selector_defs = backslash_def dquote_def companyCardSelector_def bannerSelector_def
  shortDescriptionSelector_def founderInfoSelector_def founderCardSelector_def foundedSelector_def
  teamSizeSelector_def locationSelector_def batchSelector_def

section \<open>News\<close>

lemma truthy_orNull: "truthy (orNull v) = truthy v"
  by (simp add: orNull_def)

lemma falsy_truthy: "falsy v = (\<not> truthy v)"
  by (cases v) auto

lemma strOf_orNull: "truthy v \<Longrightarrow> strOf (orNull v) = strOf v"
  by (simp add: orNull_def)

text \<open>
  C1. Every extractor returns a value and never throws; in particular \<open>getNews\<close> does not
  throw on a news item whose date text is not empty and not a date. The code does throw
  there: on the page whose only news item is followed by the text \<^verbatim>\<open>soon\<close>, in every
  environment where \<^verbatim>\<open>new Date("soon")\<close> is an invalid date, \<open>getNews\<close> ends with the
  RangeError of \<^verbatim>\<open>toISOString\<close>.
\<close>

theorem getNews_throws_on_unparseable_date:
  assumes "dateValue E ''soon'' = NaN"
  shows "getNews E undatedNewsPage = Inl RangeError"
  using assms
  by (simp add: getNews_def newsCallback_def undatedNewsPage_def toISOString_def js_defs cheerio_defs)

theorem getNews_throws_on_unparseable_date_witness:
  "dateValue exampleEnv ''soon'' = NaN \<and> getNews exampleEnv undatedNewsPage = Inl RangeError"
proof -
  have invalid: "dateValue exampleEnv ''soon'' = NaN"
    by (simp add: exampleEnv_def)
  show ?thesis
    using invalid getNews_throws_on_unparseable_date [OF invalid] by simp
qed

lemma newsCallback_item:
  assumes "newsCallback E D el = Inr r"
  shows "r = newsItemOf E D el"
  using assms
  by (auto simp: newsCallback_def newsItemOf_def Let_def andThen_def toISOString_def
        falsy_truthy truthy_orNull strOf_orNull
      split: if_splits number.splits sum.splits)

lemma cheerio_map_filter:
  assumes "cheerio_map fn sel = Inr xs" and "\<And>el r. fn el = Inr r \<Longrightarrow> r = g el"
  shows "xs = List.map_filter g sel"
  using assms(1)
proof (induction sel arbitrary: xs)
  case Nil
  then show ?case by (simp add: List.map_filter_simps)
next
  case (Cons el els)
  from Cons.prems obtain r ys where r: "fn el = Inr r" and ys: "cheerio_map fn els = Inr ys"
    and xs: "xs = (case r of None \<Rightarrow> ys | Some v \<Rightarrow> v # ys)"
    by (auto split: sum.splits)
  have "ys = List.map_filter g els" using Cons.IH ys by simp
  moreover have "r = g el" using assms(2) r by simp
  ultimately show ?case using xs by (simp add: List.map_filter_simps split: option.splits)
qed

lemma newsItemOf_Some:
  assumes "newsItemOf E D el = Some n"
  shows "news_title n \<noteq> [] \<and> news_link n \<noteq> [] \<and> news_date n \<noteq> []"
  using assms
  by (cases "cheerio_attr D (cheerio_find D [el] ''a.prose.font-medium'') ''href''")
     (auto simp: newsItemOf_def Let_def split: if_splits number.splits)

text \<open>
  C2. Every element of the list that \<open>getNews\<close> returns has a title, a link and a date: the
  list holds, in document order, the items of exactly those matched elements that have a
  non-empty title text, a non-empty link and a derived date; an element that lacks one of them
  contributes nothing.
\<close>

theorem getNews_keeps_complete_items_only:
  assumes "getNews E D = Inr items"
  shows "items = List.map_filter (newsItemOf E D) (query D ''#news div.ycdc-with-link-color'') \<and>
         (\<forall>n \<in> set items. news_title n \<noteq> [] \<and> news_link n \<noteq> [] \<and> news_date n \<noteq> [])"
proof -
  have eq: "items = List.map_filter (newsItemOf E D) (query D ''#news div.ycdc-with-link-color'')"
    using assms newsCallback_item unfolding getNews_def by (rule cheerio_map_filter)
  have "\<forall>n \<in> set items. \<exists>el. newsItemOf E D el = Some n"
    unfolding eq by (auto simp: List.map_filter_def)
  then show ?thesis using eq newsItemOf_Some by blast
qed

theorem getNews_keeps_complete_items_only_witness:
  "getNews exampleEnv newsPage =
     Inr [\<lparr>news_title = ''First'', news_link = ''/first'', news_date = ''2024-01-01T00:00:00.000Z''\<rparr>] \<and>
   length (query newsPage ''#news div.ycdc-with-link-color'') = 2"
proof -
  have run: "getNews exampleEnv newsPage =
      Inr [\<lparr>news_title = ''First'', news_link = ''/first'', news_date = ''2024-01-01T00:00:00.000Z''\<rparr>]"
    by (simp add: getNews_def newsCallback_def newsPage_def exampleEnv_def toISOString_def
        js_defs cheerio_defs)
  show ?thesis
    using getNews_keeps_complete_items_only [OF run] run
    by (simp add: query_def cheerio_find_def newsPage_def)
qed

section \<open>Launch posts\<close>

subsection \<open>The launch pages of the example environment\<close>

lemma foldl_setAdd:
  "foldl setAdd acc xs = acc @ firstOccurrences (filter (\<lambda>x. x \<notin> set acc) xs)"
proof (induction xs arbitrary: acc)
  case Nil
  then show ?case by simp
next
  case (Cons x xs)
  show ?case
  proof (cases "x \<in> set acc")
    case True
    then show ?thesis using Cons.IH [of acc] by (simp add: setAdd_def)
  next
    case False
    have "filter (\<lambda>y. y \<notin> set (acc @ [x])) xs = filter (\<lambda>y. y \<noteq> x) (filter (\<lambda>y. y \<notin> set acc) xs)"
      by (induction xs) auto
    then show ?thesis using False Cons.IH [of "acc @ [x]"] by (simp add: setAdd_def)
  qed
qed

lemma newSet_firstOccurrences: "newSet xs = firstOccurrences xs"
  using foldl_setAdd [of "[]" xs] by (simp add: newSet_def)

lemma set_firstOccurrences: "set (firstOccurrences xs) = set xs"
proof (induction xs rule: firstOccurrences.induct)
  case 1
  then show ?case by simp
next
  case (2 x xs)
  then show ?case by auto
qed

lemma truthy_Val_strOf: "truthy v \<Longrightarrow> truthy (Val (strOf v))"
  by (cases v) auto

lemma resolve_example:
  "resolveHref exampleEnv (CHR ''/'' # path) ''https://example.com'' = Inr (''https://example.com/'' @ path)"
  by (simp add: resolveHref_def exampleEnv_def exampleURL_def)

lemma base_example:
  "getBaseUrl exampleEnv (''https://example.com/'' @ path) = Inr ''https://example.com''"
  by (simp add: getBaseUrl_def exampleEnv_def exampleURL_def)

lemma scrape_hello:
  "scrapeLaunchPage exampleEnv ''https://example.com/launches/hello'' =
     Inr \<lparr>lp_votes = Num 0, lp_createdAt = Undefined, lp_post = ''Hello https://example.com/img.png'',
          lp_sources = [''https://example.com/img.png'']\<rparr>"
proof -
  have page: "axios_get exampleEnv ''https://example.com/launches/hello'' = Inr launchPage"
    by (simp add: exampleEnv_def)
  show ?thesis
    using base_example [of "''launches/hello''"] resolve_example [of "''img.png''"]
    by (simp add: scrapeLaunchPage_def bodyChild_def page launchPage_def newSet_firstOccurrences
        js_defs cheerio_defs)
qed

lemma scrape_gallery:
  "scrapeLaunchPage exampleEnv ''https://example.com/launches/gallery'' =
     Inr \<lparr>lp_votes = Num 17, lp_createdAt = Val ''2024-01-01T00:00:00Z'',
          lp_post = ''Intro https://example.com/a.png https://example.com/video https://example.com/a.png '',
          lp_sources = [''https://example.com/a.png'', ''https://example.com/video'']\<rparr>"
proof -
  have page: "axios_get exampleEnv ''https://example.com/launches/gallery'' = Inr galleryPage"
    by (simp add: exampleEnv_def)
  show ?thesis
    using base_example [of "''launches/gallery''"] resolve_example [of "''a.png''"]
      resolve_example [of "''video''"]
    by (simp add: scrapeLaunchPage_def bodyChild_def page galleryPage_def newSet_firstOccurrences
        js_defs cheerio_defs)
qed

lemma posts_company:
  "getAllLaunchPosts exampleEnv companyPage ''https://example.com'' =
     Inr [Some \<lparr>lp_votes = Num 0, lp_createdAt = Undefined,
                lp_post = ''Hello https://example.com/img.png'',
                lp_sources = [''https://example.com/img.png''],
                lp_title = ''Hello launch'', lp_link = ''https://example.com/launches/hello'',
                lp_description = ''We launched''\<rparr>, None]"
  using resolve_example [of "''launches/hello''"]
  by (simp add: getAllLaunchPosts_def launchCallback_def scrape_hello companyPage_def
      js_defs cheerio_defs selector_defs)

subsection \<open>The list of launch posts\<close>

lemma Promise_all_values:
  assumes "Promise_all ps = Inr vs"
  shows "length vs = length ps \<and> (\<forall>i < length ps. ps ! i = Inr (vs ! i))"
  using assms
proof (induction ps arbitrary: vs)
  case Nil
  then show ?case by simp
next
  case (Cons p ps)
  from Cons.prems obtain v ws where p: "p = Inr v" and ws: "Promise_all ps = Inr ws"
    and vs: "vs = v # ws"
    by (auto split: sum.splits)
  from Cons.IH [OF ws] have len: "length ws = length ps"
    and nth: "\<And>i. i < length ps \<Longrightarrow> ps ! i = Inr (ws ! i)" by auto
  show ?case
  proof (intro conjI allI impI)
    show "length vs = length (p # ps)" using vs len by simp
  next
    fix i assume "i < length (p # ps)"
    then show "(p # ps) ! i = Inr (vs ! i)"
      using p vs nth by (cases i) auto
  qed
qed

lemma launchCallback_result:
  assumes "launchCallback E D baseUrl el = Inr r"
  shows "(launchIncomplete D el \<longrightarrow> r = None) \<and>
         (\<forall>p. r = Some p \<longrightarrow>
            lp_title p = launchTitle D el \<and> lp_description p = launchDescription D el \<and>
            resolveHref E (strOf (launchRelativeLink D el)) baseUrl = Inr (lp_link p) \<and>
            lp_title p \<noteq> [] \<and> lp_link p \<noteq> [] \<and> lp_description p \<noteq> [])"
  using assms
  by (auto simp: launchCallback_def launchIncomplete_def launchTitle_def launchRelativeLink_def
        launchDescription_def Let_def andThen_def falsy_truthy
      split: if_splits sum.splits)

text \<open>
  C3, as the specification states it: a launch container without title, link or description
  contributes no element to the collection that \<open>getAllLaunchPosts\<close> returns. On the page
  with one empty launch container the collection has one element, the entry \<^verbatim>\<open>null\<close>.
\<close>

theorem getAllLaunchPosts_null_entry_counterexample:
  "getAllLaunchPosts exampleEnv emptyLaunchPage ''https://example.com'' = Inr [None]"
  by (simp add: getAllLaunchPosts_def launchCallback_def emptyLaunchPage_def js_defs cheerio_defs)

text \<open>
  C3, amended. When \<open>getAllLaunchPosts\<close> returns, the collection has one entry for every
  matched launch container, in document order (the declared type is
  \<^verbatim>\<open>(LaunchPost | null)[]\<close>): the entry of a container whose title is empty, whose
  \<^verbatim>\<open>Read Launch\<close> link is absent or empty, or whose description is empty is \<^verbatim>\<open>null\<close>,
  and every other entry is a launch post with the title and the description of its container
  and its resolved link, all three non-empty.
\<close>

theorem getAllLaunchPosts_one_entry_per_container:
  assumes "getAllLaunchPosts E D baseUrl = Inr posts"
  shows "length posts = length (query D ''.company-launch'') \<and>
         (\<forall>i < length posts.
            (launchIncomplete D (query D ''.company-launch'' ! i) \<longrightarrow> posts ! i = None) \<and>
            (\<forall>p. posts ! i = Some p \<longrightarrow>
               lp_title p = launchTitle D (query D ''.company-launch'' ! i) \<and>
               lp_description p = launchDescription D (query D ''.company-launch'' ! i) \<and>
               resolveHref E (strOf (launchRelativeLink D (query D ''.company-launch'' ! i))) baseUrl
                 = Inr (lp_link p) \<and>
               lp_title p \<noteq> [] \<and> lp_link p \<noteq> [] \<and> lp_description p \<noteq> []))"
proof -
  let ?cs = "query D ''.company-launch''"
  from assms have all: "Promise_all (map (launchCallback E D baseUrl) ?cs) = Inr posts"
    by (simp add: getAllLaunchPosts_def Let_def)
  from Promise_all_values [OF all] have len: "length posts = length ?cs"
    and nth: "\<And>i. i < length ?cs \<Longrightarrow> launchCallback E D baseUrl (?cs ! i) = Inr (posts ! i)"
    by auto
  have "\<forall>i < length posts.
            (launchIncomplete D (?cs ! i) \<longrightarrow> posts ! i = None) \<and>
            (\<forall>p. posts ! i = Some p \<longrightarrow>
               lp_title p = launchTitle D (?cs ! i) \<and>
               lp_description p = launchDescription D (?cs ! i) \<and>
               resolveHref E (strOf (launchRelativeLink D (?cs ! i))) baseUrl = Inr (lp_link p) \<and>
               lp_title p \<noteq> [] \<and> lp_link p \<noteq> [] \<and> lp_description p \<noteq> [])"
  proof (intro allI impI)
    fix i assume "i < length posts"
    then have "launchCallback E D baseUrl (?cs ! i) = Inr (posts ! i)"
      using nth len by simp
    then show "(launchIncomplete D (?cs ! i) \<longrightarrow> posts ! i = None) \<and>
            (\<forall>p. posts ! i = Some p \<longrightarrow>
               lp_title p = launchTitle D (?cs ! i) \<and>
               lp_description p = launchDescription D (?cs ! i) \<and>
               resolveHref E (strOf (launchRelativeLink D (?cs ! i))) baseUrl = Inr (lp_link p) \<and>
               lp_title p \<noteq> [] \<and> lp_link p \<noteq> [] \<and> lp_description p \<noteq> [])"
      by (rule launchCallback_result)
  qed
  with len show ?thesis by blast
qed

theorem getAllLaunchPosts_one_entry_per_container_witness:
  "getAllLaunchPosts exampleEnv companyPage ''https://example.com'' =
     Inr [Some \<lparr>lp_votes = Num 0, lp_createdAt = Undefined,
                lp_post = ''Hello https://example.com/img.png'',
                lp_sources = [''https://example.com/img.png''],
                lp_title = ''Hello launch'', lp_link = ''https://example.com/launches/hello'',
                lp_description = ''We launched''\<rparr>, None] \<and>
   query companyPage ''.company-launch'' = [[1], [2]] \<and>
   launchIncomplete companyPage [2]"
proof -
  have q: "query companyPage ''.company-launch'' = [[1], [2]]"
    by (simp add: query_def cheerio_find_def companyPage_def selector_defs)
  have inc: "launchIncomplete companyPage [2]"
    by (simp add: launchIncomplete_def launchTitle_def companyPage_def js_defs cheerio_defs)
  show ?thesis
    using getAllLaunchPosts_one_entry_per_container [OF posts_company] posts_company q inc
    by simp
qed

subsection \<open>The body and the media of a launch page\<close>

lemma bodyChild_result:
  assumes "bodyChild E D baseUrl el srcs = Inr (v, srcs')"
  shows "v = Some (childFragment E D baseUrl el) \<and> srcs' = srcs @ childMedia E D baseUrl el \<and>
         set (childMedia E D baseUrl el) \<subseteq> {childFragment E D baseUrl el}"
proof -
  let ?t = "trim (cheerio_text D [el])"
  let ?img = "cheerio_attr D (cheerio_find D [el] ''img'') ''src''"
  let ?iframe = "cheerio_attr D (cheerio_find D [el] ''iframe'') ''src''"
  consider (own_text) "?t \<noteq> []"
    | (img) "?t = []" "truthy ?img"
    | (iframe) "?t = []" "\<not> truthy ?img" "truthy ?iframe"
    | (none) "?t = []" "\<not> truthy ?img" "\<not> truthy ?iframe"
    by blast
  then show ?thesis
  proof cases
    case own_text
    then show ?thesis
      using assms by (simp add: bodyChild_def childFragment_def childMedia_def Let_def)
  next
    case img
    then obtain src where "resolveHref E (strOf ?img) baseUrl = Inr src"
      using assms by (cases "resolveHref E (strOf ?img) baseUrl")
        (simp_all add: bodyChild_def Let_def andThen_def)
    then show ?thesis
      using assms img truthy_Val_strOf [OF img(2)]
      by (simp add: bodyChild_def childFragment_def childMedia_def Let_def andThen_def)
  next
    case iframe
    then obtain src where "resolveHref E (strOf ?iframe) baseUrl = Inr src"
      using assms by (cases "resolveHref E (strOf ?iframe) baseUrl")
        (simp_all add: bodyChild_def Let_def andThen_def)
    then show ?thesis
      using assms iframe truthy_Val_strOf [OF iframe(3)]
      by (simp add: bodyChild_def childFragment_def childMedia_def Let_def andThen_def)
  next
    case none
    then show ?thesis
      using assms by (simp add: bodyChild_def childFragment_def childMedia_def Let_def)
  qed
qed

lemma body_walk:
  assumes "cheerio_map_st (bodyChild E D baseUrl) els srcs = Inr (frags, srcs')"
  shows "frags = map (childFragment E D baseUrl) els \<and> srcs' = srcs @ mediaUrls E D baseUrl els \<and>
         set (mediaUrls E D baseUrl els) \<subseteq> set frags"
  using assms
proof (induction els arbitrary: srcs frags srcs')
  case Nil
  then show ?case by (simp add: mediaUrls_def)
next
  case (Cons el els)
  from Cons.prems obtain v s1 fs where
    one: "bodyChild E D baseUrl el srcs = Inr (v, s1)" and
    more: "cheerio_map_st (bodyChild E D baseUrl) els s1 = Inr (fs, srcs')" and
    frags: "frags = (case v of None \<Rightarrow> fs | Some f \<Rightarrow> f # fs)"
    by (auto split: sum.splits prod.splits)
  from bodyChild_result [OF one] have v: "v = Some (childFragment E D baseUrl el)"
    and s1: "s1 = srcs @ childMedia E D baseUrl el"
    and sub: "set (childMedia E D baseUrl el) \<subseteq> {childFragment E D baseUrl el}" by auto
  from Cons.IH [OF more] have fs: "fs = map (childFragment E D baseUrl) els"
    and s': "srcs' = s1 @ mediaUrls E D baseUrl els"
    and sub': "set (mediaUrls E D baseUrl els) \<subseteq> set fs" by auto
  show ?case using v s1 sub fs s' sub' frags by (auto simp: mediaUrls_def)
qed

text \<open>
  C6. A body container with exactly two children, the first with the text \<^verbatim>\<open>Hello\<close>, the
  second with empty text and an image of source \<^verbatim>\<open>/img.png\<close>, on a page of base URL
  \<^verbatim>\<open>https://example.com\<close> (against which \<^verbatim>\<open>/img.png\<close> resolves to
  \<^verbatim>\<open>https://example.com/img.png\<close>): \<open>scrapeLaunchPage\<close> returns the body
  \<^verbatim>\<open>Hello https://example.com/img.png\<close> and the media list with that one URL.
\<close>

theorem scrapeLaunchPage_hello_image:
  assumes "axios_get E url = Inr D"
    and "getBaseUrl E url = Inr ''https://example.com''"
    and "cheerio_children D (query D ''div.launch-container > div:not([class])'') = [c1, c2]"
    and "trim (cheerio_text D [c1]) = ''Hello''"
    and "cheerio_text D [c2] = []"
    and "cheerio_attr D (cheerio_find D [c2] ''img'') ''src'' = Val ''/img.png''"
    and "resolveHref E ''/img.png'' ''https://example.com'' = Inr ''https://example.com/img.png''"
  shows "\<exists>page. scrapeLaunchPage E url = Inr page \<and>
           lp_post page = ''Hello https://example.com/img.png'' \<and>
           lp_sources page = [''https://example.com/img.png'']"
proof -
  have empty: "trim [] = []" by (simp add: trim_def trimStart_def)
  show ?thesis
    using assms empty
    by (simp add: scrapeLaunchPage_def bodyChild_def andThen_def Let_def newSet_def setAdd_def)
qed

theorem scrapeLaunchPage_hello_image_witness:
  "axios_get exampleEnv ''https://example.com/launches/hello'' = Inr launchPage \<and>
   getBaseUrl exampleEnv ''https://example.com/launches/hello'' = Inr ''https://example.com'' \<and>
   cheerio_children launchPage (query launchPage ''div.launch-container > div:not([class])'') = [[0, 0, 0], [0, 0, 1]] \<and>
   (\<exists>page. scrapeLaunchPage exampleEnv ''https://example.com/launches/hello'' = Inr page \<and>
           lp_post page = ''Hello https://example.com/img.png'' \<and>
           lp_sources page = [''https://example.com/img.png''])"
proof -
  have 1: "axios_get exampleEnv ''https://example.com/launches/hello'' = Inr launchPage"
    by (simp add: exampleEnv_def)
  have 2: "getBaseUrl exampleEnv ''https://example.com/launches/hello'' = Inr ''https://example.com''"
    by (simp add: getBaseUrl_def exampleEnv_def exampleURL_def)
  have 3: "cheerio_children launchPage (query launchPage ''div.launch-container > div:not([class])'') = [[0, 0, 0], [0, 0, 1]]"
    by (simp add: launchPage_def cheerio_defs)
  have 4: "trim (cheerio_text launchPage [[0, 0, 0]]) = ''Hello''"
    by (simp add: launchPage_def cheerio_defs js_defs)
  have 5: "cheerio_text launchPage [[0, 0, 1]] = []"
    by (simp add: launchPage_def cheerio_defs)
  have 6: "cheerio_attr launchPage (cheerio_find launchPage [[0, 0, 1]] ''img'') ''src'' = Val ''/img.png''"
    by (simp add: launchPage_def cheerio_defs)
  have 7: "resolveHref exampleEnv ''/img.png'' ''https://example.com'' = Inr ''https://example.com/img.png''"
    by (simp add: resolveHref_def exampleEnv_def exampleURL_def)
  show ?thesis
    using scrapeLaunchPage_hello_image [OF 1 2 3 4 5 6 7] 1 2 3 by simp
qed

text \<open>
  C10. The media list that \<open>scrapeLaunchPage\<close> returns is the sequence of the resolved
  media URLs of the body's children, each at its first occurrence in the walk, and every URL of
  the list is one of the fragments that are joined (by single spaces) into the returned body.
\<close>

theorem scrapeLaunchPage_sources:
  assumes "scrapeLaunchPage E url = Inr page"
  shows "\<exists>D baseUrl. axios_get E url = Inr D \<and> getBaseUrl E url = Inr baseUrl \<and>
           lp_sources page = firstOccurrences (mediaUrls E D baseUrl
              (cheerio_children D (query D ''div.launch-container > div:not([class])''))) \<and>
           lp_post page = join (map (childFragment E D baseUrl)
              (cheerio_children D (query D ''div.launch-container > div:not([class])''))) '' '' \<and>
           (\<forall>u \<in> set (lp_sources page). u \<in> set (map (childFragment E D baseUrl)
              (cheerio_children D (query D ''div.launch-container > div:not([class])''))))"
proof -
  from assms obtain D baseUrl frags srcs where
    D: "axios_get E url = Inr D" and b: "getBaseUrl E url = Inr baseUrl" and
    walk: "cheerio_map_st (bodyChild E D baseUrl)
             (cheerio_children D (query D ''div.launch-container > div:not([class])'')) [] = Inr (frags, srcs)" and
    page: "lp_post page = join frags '' ''" "lp_sources page = newSet srcs"
    by (auto simp: scrapeLaunchPage_def andThen_def Let_def split: sum.splits prod.splits)
  from body_walk [OF walk] page show ?thesis
    using D b by (auto simp: newSet_firstOccurrences set_firstOccurrences)
qed

theorem scrapeLaunchPage_sources_witness:
  "scrapeLaunchPage exampleEnv ''https://example.com/launches/gallery'' =
     Inr \<lparr>lp_votes = Num 17, lp_createdAt = Val ''2024-01-01T00:00:00Z'',
          lp_post = ''Intro https://example.com/a.png https://example.com/video https://example.com/a.png '',
          lp_sources = [''https://example.com/a.png'', ''https://example.com/video'']\<rparr> \<and>
   mediaUrls exampleEnv galleryPage ''https://example.com''
     (cheerio_children galleryPage (query galleryPage ''div.launch-container > div:not([class])'')) =
     [''https://example.com/a.png'', ''https://example.com/video'', ''https://example.com/a.png'']"
proof -
  have media: "mediaUrls exampleEnv galleryPage ''https://example.com''
     (cheerio_children galleryPage (query galleryPage ''div.launch-container > div:not([class])'')) =
     [''https://example.com/a.png'', ''https://example.com/video'', ''https://example.com/a.png'']"
    using resolve_example [of "''a.png''"] resolve_example [of "''video''"]
    by (simp add: mediaUrls_def childMedia_def galleryPage_def js_defs cheerio_defs)
  show ?thesis
    using scrapeLaunchPage_sources [OF scrape_gallery] scrape_gallery media by simp
qed

section \<open>Numeric extractors\<close>

text \<open>The conversion to a double rounds to the even significand and overflows to infinity.\<close>

lemma toNumber_rounds:
  "toNumber 9007199254740993 = Num 9007199254740992"
  "toNumber 9007199254740995 = Num 9007199254740996"
  "toNumber (- 9007199254740993) = Num (- 9007199254740992)"
  by (simp_all add: toNumber_def roundToDouble_def bitLength.simps)

lemma toNumber_overflow: "toNumber (2 ^ 1024) = Infinity"
  by (simp add: toNumber_def roundToDouble_def bitLength.simps)

lemma roundToDouble_small: "n \<le> 9007199254740992 \<Longrightarrow> roundToDouble n = Some n"
  by (simp add: roundToDouble_def)

lemma toNumber_small: "\<bar>i\<bar> \<le> 9007199254740992 \<Longrightarrow> toNumber i = Num i"
  by (simp add: toNumber_def roundToDouble_small)

lemma toNumber_not_NaN: "toNumber i \<noteq> NaN"
  by (simp add: toNumber_def split: option.splits)

lemma digit_not_space: "isDigit c \<Longrightarrow> \<not> isWhiteSpace c"
  by (auto simp: isDigit_def isWhiteSpace_def Let_def)

lemma digit_not_sign: "isDigit c \<Longrightarrow> c \<noteq> CHR ''+'' \<and> c \<noteq> CHR ''-''"
  by (auto simp: isDigit_def Let_def)

lemma sign_not_space: "c = CHR ''+'' \<or> c = CHR ''-'' \<Longrightarrow> \<not> isWhiteSpace c"
  by (auto simp: isWhiteSpace_def Let_def)

lemma trimStart_hd: "\<not> isWhiteSpace c \<Longrightarrow> trimStart (c # s) = c # s"
  by (simp add: trimStart_def)

lemma trim_hd:
  assumes "trim s = c # r"
  shows "\<not> isWhiteSpace c"
proof -
  let ?x = "dropWhile isWhiteSpace s"
  have split: "?x = rev (dropWhile isWhiteSpace (rev ?x)) @ rev (takeWhile isWhiteSpace (rev ?x))"
    by (metis rev_append rev_rev_ident takeWhile_dropWhile_id)
  from assms have t: "rev (dropWhile isWhiteSpace (rev ?x)) = c # r"
    by (simp add: trim_def trimStart_def)
  with split have "?x = c # (r @ rev (takeWhile isWhiteSpace (rev ?x)))" by simp
  then obtain y where "?x = c # y" by blast
  then show ?thesis using hd_dropWhile [of isWhiteSpace s] by (metis list.sel(1) list.distinct(1))
qed

lemma trimStart_trim: "trimStart (trim s) = trim s"
proof (cases "trim s")
  case Nil
  then show ?thesis by (simp add: trimStart_def)
next
  case (Cons c r)
  then show ?thesis using trim_hd [OF Cons] by (simp add: trimStart_hd)
qed

lemma takeWhile_digits:
  assumes "list_all isDigit ds" and "rest = [] \<or> \<not> isDigit (hd rest)"
  shows "takeWhile isDigit (ds @ rest) = ds"
  using assms by (cases rest) (auto simp: list_all_iff takeWhile_append)

lemma parseInt10_digits:
  assumes "ds \<noteq> []" and "list_all isDigit ds" and "rest = [] \<or> \<not> isDigit (hd rest)"
  shows "parseInt10 (ds @ rest) = toNumber (int (decimal ds))"
proof -
  from assms(1) obtain d ds' where ds: "ds = d # ds'" by (cases ds) auto
  with assms(2) have d: "isDigit d" by simp
  have "trimStart (ds @ rest) = ds @ rest"
    using d ds digit_not_space by (simp add: trimStart_hd)
  then show ?thesis
    using takeWhile_digits [OF assms(2,3)] digit_not_sign [OF d] assms(1) ds
    by (simp add: parseInt10_def Let_def)
qed

lemma parseInt10_plus:
  assumes "ds \<noteq> []" and "list_all isDigit ds" and "rest = [] \<or> \<not> isDigit (hd rest)"
  shows "parseInt10 (CHR ''+'' # ds @ rest) = toNumber (int (decimal ds))"
  using takeWhile_digits [OF assms(2,3)] assms(1)
  by (simp add: parseInt10_def Let_def trimStart_hd sign_not_space)

lemma parseInt10_minus:
  assumes "ds \<noteq> []" and "list_all isDigit ds" and "rest = [] \<or> \<not> isDigit (hd rest)"
  shows "parseInt10 (CHR ''-'' # ds @ rest) = toNumber (- int (decimal ds))"
  using takeWhile_digits [OF assms(2,3)] assms(1)
  by (simp add: parseInt10_def Let_def trimStart_hd sign_not_space)

lemma takeWhile_Nil_hd: "(takeWhile P xs = []) = (case xs of [] \<Rightarrow> True | x # _ \<Rightarrow> \<not> P x)"
  by (cases xs) auto

lemma parseInt10_NaN_iff:
  assumes "trimStart t = t"
  shows "(parseInt10 t = NaN) = (\<not> startsWithInteger t)"
proof (cases t)
  case Nil
  then show ?thesis by (simp add: parseInt10_def startsWithInteger_def trimStart_def)
next
  case (Cons c cs)
  then show ?thesis
    using assms digit_not_sign [of c]
    by (auto simp: parseInt10_def startsWithInteger_def Let_def toNumber_not_NaN takeWhile_Nil_hd
        split: list.splits)
qed

text \<open>
  C4, as the specification states it: \<open>getTeamSize\<close> strips the non-digit characters, so
  that the text \<^verbatim>\<open>Team Size: 42 people\<close> yields 42. On the page whose team-size value has
  this text, \<open>getTeamSize\<close> returns \<^verbatim>\<open>null\<close>.
\<close>

theorem getTeamSize_no_stripping_counterexample:
  "trim (cheerio_text teamPage (query teamPage teamSizeSelector)) = ''Team Size: 42 people'' \<and>
   getTeamSize teamPage = Null"
  by (simp add: getTeamSize_def teamPage_def js_defs cheerio_defs selector_defs)

text \<open>
  C4, amended. \<open>getTeamSize\<close> gives the trimmed text to \<^verbatim>\<open>parseInt\<close> as it is, without
  stripping. A text that begins, after at most one sign, with decimal digits yields the
  integer of its leading digits with that sign, when the integer is at most
  \<open>2^53 = 9007199254740992\<close> (\<^verbatim>\<open>42 people\<close> yields 42). The result is \<^verbatim>\<open>null\<close> for
  exactly the texts from which no integer can be parsed, those that do not begin, after at
  most one sign, with a decimal digit (\<^verbatim>\<open>Team Size: 42 people\<close>, \<^verbatim>\<open>~42\<close>, the empty
  text). \<open>getNumJobs\<close> removes every non-digit before parsing: when a digit remains and the
  remaining digits denote an integer of at most \<open>2^53\<close>, it returns that integer.
\<close>

theorem numeric_extractors:
  "(\<forall>ds rest. trim (cheerio_text D (query D teamSizeSelector)) = ds @ rest \<and> ds \<noteq> [] \<and>
       list_all isDigit ds \<and> (rest = [] \<or> \<not> isDigit (hd rest)) \<and> decimal ds \<le> 9007199254740992
       \<longrightarrow> getTeamSize D = Val (Num (int (decimal ds)))) \<and>
   (\<forall>ds rest. trim (cheerio_text D (query D teamSizeSelector)) = CHR ''+'' # ds @ rest \<and> ds \<noteq> [] \<and>
       list_all isDigit ds \<and> (rest = [] \<or> \<not> isDigit (hd rest)) \<and> decimal ds \<le> 9007199254740992
       \<longrightarrow> getTeamSize D = Val (Num (int (decimal ds)))) \<and>
   (\<forall>ds rest. trim (cheerio_text D (query D teamSizeSelector)) = CHR ''-'' # ds @ rest \<and> ds \<noteq> [] \<and>
       list_all isDigit ds \<and> (rest = [] \<or> \<not> isDigit (hd rest)) \<and> decimal ds \<le> 9007199254740992
       \<longrightarrow> getTeamSize D = Val (Num (- int (decimal ds)))) \<and>
   ((getTeamSize D = Null) = (\<not> startsWithInteger (trim (cheerio_text D (query D teamSizeSelector))))) \<and>
   (removeNonDigits (trim (cheerio_text D (query D ''.ycdc-badge.ml-0.font-bold.no-underline''))) \<noteq> [] \<and>
    decimal (removeNonDigits (trim (cheerio_text D (query D ''.ycdc-badge.ml-0.font-bold.no-underline''))))
      \<le> 9007199254740992
       \<longrightarrow> getNumJobs D = Num (int (decimal (removeNonDigits
              (trim (cheerio_text D (query D ''.ycdc-badge.ml-0.font-bold.no-underline'')))))))"
proof (intro conjI allI impI)
  fix ds rest
  assume "trim (cheerio_text D (query D teamSizeSelector)) = ds @ rest \<and> ds \<noteq> [] \<and>
       list_all isDigit ds \<and> (rest = [] \<or> \<not> isDigit (hd rest)) \<and> decimal ds \<le> 9007199254740992"
  then show "getTeamSize D = Val (Num (int (decimal ds)))"
    using parseInt10_digits [of ds rest] toNumber_small [of "int (decimal ds)"]
    by (simp add: getTeamSize_def Let_def)
next
  fix ds rest
  assume "trim (cheerio_text D (query D teamSizeSelector)) = CHR ''+'' # ds @ rest \<and> ds \<noteq> [] \<and>
       list_all isDigit ds \<and> (rest = [] \<or> \<not> isDigit (hd rest)) \<and> decimal ds \<le> 9007199254740992"
  then show "getTeamSize D = Val (Num (int (decimal ds)))"
    using parseInt10_plus [of ds rest] toNumber_small [of "int (decimal ds)"]
    by (simp add: getTeamSize_def Let_def)
next
  fix ds rest
  assume "trim (cheerio_text D (query D teamSizeSelector)) = CHR ''-'' # ds @ rest \<and> ds \<noteq> [] \<and>
       list_all isDigit ds \<and> (rest = [] \<or> \<not> isDigit (hd rest)) \<and> decimal ds \<le> 9007199254740992"
  then show "getTeamSize D = Val (Num (- int (decimal ds)))"
    using parseInt10_minus [of ds rest] toNumber_small [of "- int (decimal ds)"]
    by (simp add: getTeamSize_def Let_def)
next
  show "(getTeamSize D = Null) = (\<not> startsWithInteger (trim (cheerio_text D (query D teamSizeSelector))))"
    using parseInt10_NaN_iff [OF trimStart_trim, of "cheerio_text D (query D teamSizeSelector)"]
    by (simp add: getTeamSize_def Let_def)
next
  let ?ds = "removeNonDigits (trim (cheerio_text D (query D ''.ycdc-badge.ml-0.font-bold.no-underline'')))"
  assume a: "?ds \<noteq> [] \<and> decimal ?ds \<le> 9007199254740992"
  have "list_all isDigit ?ds" by (simp add: removeNonDigits_def list_all_iff)
  with a have "parseInt10 (?ds @ []) = toNumber (int (decimal ?ds))"
    by (intro parseInt10_digits) simp_all
  then show "getNumJobs D = Num (int (decimal ?ds))"
    using a toNumber_small [of "int (decimal ?ds)"] by (simp add: getNumJobs_def Let_def)
qed

theorem numeric_extractors_witness:
  "trim (cheerio_text jobsPage (query jobsPage teamSizeSelector)) = ''42 people'' \<and>
   getTeamSize jobsPage = Val (Num 42) \<and>
   trim (cheerio_text teamPage (query teamPage teamSizeSelector)) = ''Team Size: 42 people'' \<and>
   getTeamSize teamPage = Null \<and>
   trim (cheerio_text jobsPage (query jobsPage ''.ycdc-badge.ml-0.font-bold.no-underline'')) = ''~42 people'' \<and>
   getNumJobs jobsPage = Num 42"
proof -
  have t1: "trim (cheerio_text jobsPage (query jobsPage teamSizeSelector)) = ''42'' @ '' people''"
    by (simp add: jobsPage_def js_defs cheerio_defs selector_defs)
  have t2: "trim (cheerio_text teamPage (query teamPage teamSizeSelector)) = ''Team Size: 42 people''"
    by (simp add: teamPage_def js_defs cheerio_defs selector_defs)
  have t3: "trim (cheerio_text jobsPage (query jobsPage ''.ycdc-badge.ml-0.font-bold.no-underline'')) = ''~42 people''"
    by (simp add: jobsPage_def js_defs cheerio_defs selector_defs)
  have d: "decimal ''42'' = 42" "list_all isDigit ''42''" "\<not> isDigit (CHR '' '')"
    "removeNonDigits ''~42 people'' = ''42''" "\<not> startsWithInteger ''Team Size: 42 people''"
    by (simp_all add: js_defs startsWithInteger_def)
  have a: "getTeamSize jobsPage = Val (Num (int (decimal ''42'')))"
    using numeric_extractors [of jobsPage, THEN conjunct1, rule_format, of "''42''" "'' people''"] t1 d
    by simp
  have b: "getTeamSize teamPage = Null"
    using numeric_extractors [of teamPage, THEN conjunct2, THEN conjunct2, THEN conjunct2, THEN conjunct1] t2 d
    by simp
  have c: "getNumJobs jobsPage = Num (int (decimal ''42''))"
    using numeric_extractors [of jobsPage, THEN conjunct2, THEN conjunct2, THEN conjunct2,
        THEN conjunct2, rule_format] t3 d
    by simp
  show ?thesis using a b c t1 t2 t3 d by simp
qed

section \<open>The assembled record\<close>

lemma company_lists:
  "getJobs companyPage = Inr []"
  "getCompanySocials companyPage = Inr Map.empty"
  "getBadges companyPage = Inr []"
  "getBatch companyPage = Inr Null"
  "getNews exampleEnv companyPage = Inr []"
  "getImages companyPage = Inr []"
  by (simp_all add: getJobs_def getCompanySocials_def getBadges_def getBatch_def getNews_def
      getImages_def companyPage_def cheerio_defs selector_defs)

lemma company_founders:
  "getFounders companyPage = Inr [founderObject ''Ada'' Undefined [] Null Map.empty]"
  by (simp add: getFounders_def founderCardCallback_def companyPage_def
      js_defs cheerio_defs selector_defs)

lemma company_scalars:
  "getName companyPage = Null" "getFounded companyPage = Null" "getNumJobs companyPage = NaN"
  "getTeamSize companyPage = Null" "getLocation companyPage = Null"
  "getDescription companyPage = Null" "getShortDescription companyPage = Null"
  "getCompanyUrl companyPage = Null" "getCompanyLogo companyPage = Null"
  "getBannerUrl companyPage = Null"
  by (simp_all add: getName_def getFounded_def getNumJobs_def getTeamSize_def getLocation_def
      getDescription_def getShortDescription_def getCompanyUrl_def getCompanyLogo_def
      getBannerUrl_def companyPage_def js_defs cheerio_defs selector_defs)

lemma handler_acme:
  "requestHandler exampleEnv companyPage ''https://example.com/companies/acme'' acc =
     Inr (acc @ [acmeRecord])"
  using base_example [of "''companies/acme''"]
  by (simp add: requestHandler_def company_lists company_founders company_scalars posts_company
      andThen_def acmeRecord_def)

text \<open>
  C5. Every optional field of an assembled record is a string, a number or \<^verbatim>\<open>null\<close>,
  never \<^verbatim>\<open>undefined\<close> and never \<^verbatim>\<open>NaN\<close>. On the example company page (no job badge, a
  founder card without an image, a launch page without a time stamp) the handler pushes a
  record whose \<open>numJobs\<close> is \<^verbatim>\<open>NaN\<close>, whose founder has the \<open>imageUrl\<close>
  \<^verbatim>\<open>undefined\<close> and whose launch post has the \<open>createdAt\<close> \<^verbatim>\<open>undefined\<close>.
\<close>

theorem requestHandler_record_has_NaN_and_undefined:
  "\<exists>r. requestHandler exampleEnv companyPage ''https://example.com/companies/acme'' [] = Inr [r] \<and>
        s_numJobs r = NaN \<and>
        map (\<lambda>founder. founder ''imageUrl'') (s_founders r) = [Some Undefined] \<and>
        map (map_option lp_createdAt) (s_launchPosts r) = [Some Undefined, None]"
  by (simp add: handler_acme acmeRecord_def founderObject_def)

section \<open>Social links\<close>

text \<open>
  The loop over the social links never throws: \<^verbatim>\<open>split\<close> returns at least one piece, so
  the optional chain ends in a string or in \<^verbatim>\<open>undefined\<close>, and every link adds an entry. A
  link without a title adds the entry of the key \<^verbatim>\<open>"undefined"\<close>.
\<close>

lemma splitFrom_not_Nil: "splitFrom sep acc s \<noteq> []"
  by (induction sep acc s rule: splitFrom.induct) auto

lemma split_first: "\<exists>w. index (split s '' '') 0 = Val w"
proof -
  have "split s '' '' \<noteq> []" by (simp add: split_def splitFrom_not_Nil)
  then show ?thesis by (cases "split s '' ''") auto
qed

lemma platformOf_returns: "\<exists>p. platformOf t = Inr p"
proof (cases t)
  case (Val s)
  then show ?thesis using split_first [of s] by (auto simp: platformOf_def)
qed (simp_all add: platformOf_def)

lemma addSocial_returns: "\<exists>key. addSocial D el socials = Inr (socials(key \<mapsto> cheerio_attr D [el] ''href''))"
  using platformOf_returns [of "cheerio_attr D [el] ''title''"]
  by (auto simp: addSocial_def andThen_def Let_def)

lemma addSocial_untitled:
  assumes "cheerio_attr D [el] ''title'' = Undefined"
  shows "addSocial D el socials = Inr (socials(''undefined'' \<mapsto> cheerio_attr D [el] ''href''))"
  using assms by (simp add: addSocial_def platformOf_def andThen_def)

lemma cheerio_each_addSocial_returns: "\<exists>socials'. cheerio_each (addSocial D) links socials = Inr socials'"
proof (induction links arbitrary: socials)
  case Nil
  then show ?case by simp
next
  case (Cons el links)
  from addSocial_returns [of D el socials] obtain key where
    "addSocial D el socials = Inr (socials(key \<mapsto> cheerio_attr D [el] ''href''))" by blast
  then show ?case using Cons.IH by simp
qed

lemma getCompanySocials_returns: "\<exists>socials. getCompanySocials D = Inr socials"
  by (simp add: getCompanySocials_def Let_def cheerio_each_addSocial_returns)

text \<open>
  C7. A matched social link without a title attribute does not make \<open>getCompanySocials\<close>
  throw and adds no entry. On the example card, whose first link has no title, the function
  returns, but the mapping has the entry \<^verbatim>\<open>"undefined"\<close> for that link, next to
  \<^verbatim>\<open>"linkedin"\<close> for the link titled \<^verbatim>\<open>LinkedIn profile\<close>.
\<close>

theorem getCompanySocials_undefined_key:
  "getCompanySocials socialPage =
     Inr [''undefined'' \<mapsto> Val ''https://twitter.com/acme'',
          ''linkedin'' \<mapsto> Val ''https://linkedin.com/company/acme'']"
  by (simp add: getCompanySocials_def addSocial_def platformOf_def socialPage_def
      js_defs cheerio_defs selector_defs)

section \<open>The crawl\<close>





















section \<open>The input list\<close>

lemma runStream_data:
  "runStream E (map Data rows @ events) st =
     runStream E events (st\<lparr>st_companies := st_companies st @ map (toCompany E) rows\<rparr>)"
  by (induction rows arbitrary: st) (simp_all add: onData_def)

lemma settled_kept:
  assumes "st_settled st = Some r"
  shows "st_settled (runStream E events st) = Some r"
  using assms
  by (induction E events st rule: runStream.induct)
     (simp_all add: onData_def onError_def onEnd_def settle_def)

lemma console_kept:
  assumes "x \<in> set (st_console st)"
  shows "x \<in> set (st_console (runStream E events st))"
  using assms
  by (induction E events st rule: runStream.induct)
     (simp_all add: onData_def onError_def onEnd_def settle_def split: option.splits)

text \<open>
  C8, as the specification states it: a malformed row is logged and skipped, and the promise
  still resolves with the records of the other rows. On the stream of \<^verbatim>\<open>broken.csv\<close>
  (one row, then the error of a malformed row) the promise of \<open>parseCompanyList\<close> is
  rejected with that error.
\<close>

theorem parseCompanyList_malformed_row_counterexample:
  "parseFile exampleEnv ''broken.csv'' =
     [Data (exampleRow ''Acme'' ''https://example.com/companies/acme''), Error MalformedRow] \<and>
   st_settled (parseCompanyList exampleEnv ''.'' ''broken.csv'') = Some (Inl MalformedRow)"
  by (simp add: parseCompanyList_def exampleEnv_def onData_def onError_def settle_def)

text \<open>
  C8, amended. When the parser stream emits an error after some rows, the error of a
  malformed row included, \<open>parseCompanyList\<close> logs the error and its promise is rejected with
  it: no row is skipped. The promise resolves, with the records of all rows, when the stream
  ends without an error before its end; as long as the stream has emitted rows only, the
  promise is pending and nothing is logged.
\<close>

theorem parseCompanyList_rejects_on_any_error:
  "(parseFile E csvPath = map Data rows @ Error e # rest \<longrightarrow>
      st_settled (parseCompanyList E dirname csvPath) = Some (Inl e) \<and>
      ConsoleError e \<in> set (st_console (parseCompanyList E dirname csvPath))) \<and>
   (parseFile E csvPath = map Data rows @ End # rest \<longrightarrow>
      st_settled (parseCompanyList E dirname csvPath) = Some (Inr (map (toCompany E) rows))) \<and>
   (parseFile E csvPath = map Data rows \<longrightarrow>
      st_settled (parseCompanyList E dirname csvPath) = None \<and>
      st_console (parseCompanyList E dirname csvPath) = [])"
proof (intro conjI impI)
  assume f: "parseFile E csvPath = map Data rows @ Error e # rest"
  let ?st = "onError e \<lparr>st_companies = map (toCompany E) rows, st_console = [], st_settled = None\<rparr>"
  have run: "parseCompanyList E dirname csvPath = runStream E rest ?st"
    by (simp add: parseCompanyList_def f runStream_data)
  have "st_settled ?st = Some (Inl e)" by (simp add: onError_def settle_def)
  then show "st_settled (parseCompanyList E dirname csvPath) = Some (Inl e)"
    unfolding run by (rule settled_kept)
  have "ConsoleError e \<in> set (st_console ?st)" by (simp add: onError_def settle_def)
  then show "ConsoleError e \<in> set (st_console (parseCompanyList E dirname csvPath))"
    unfolding run by (rule console_kept)
next
  assume f: "parseFile E csvPath = map Data rows @ End # rest"
  show "st_settled (parseCompanyList E dirname csvPath) = Some (Inr (map (toCompany E) rows))"
    by (simp add: parseCompanyList_def f runStream_data onEnd_def settle_def)
next
  assume f: "parseFile E csvPath = map Data rows"
  have run: "parseCompanyList E dirname csvPath =
      \<lparr>st_companies = map (toCompany E) rows, st_console = [], st_settled = None\<rparr>"
    using runStream_data [of E rows "[]"] by (simp add: parseCompanyList_def f)
  show "st_settled (parseCompanyList E dirname csvPath) = None"
    and "st_console (parseCompanyList E dirname csvPath) = []"
    by (simp_all add: run)
qed

theorem parseCompanyList_rejects_on_any_error_witness:
  "st_settled (parseCompanyList exampleEnv ''.'' ''broken.csv'') = Some (Inl MalformedRow) \<and>
   ConsoleError MalformedRow \<in> set (st_console (parseCompanyList exampleEnv ''.'' ''broken.csv'')) \<and>
   st_settled (parseCompanyList exampleEnv ''.'' ''companies.csv'') =
     Some (Inr [\<lparr>c_companyName = Val ''Acme'', c_ycUrl = Val ''https://example.com/companies/acme''\<rparr>,
                \<lparr>c_companyName = Val ''Beta'', c_ycUrl = Val ''https://example.com/companies/beta''\<rparr>]) \<and>
   parseFile exampleEnv ''missing.csv'' = [] \<and>
   st_settled (parseCompanyList exampleEnv ''.'' ''missing.csv'') = None"
proof -
  let ?acme = "exampleRow ''Acme'' ''https://example.com/companies/acme''"
  let ?beta = "exampleRow ''Beta'' ''https://example.com/companies/beta''"
  have broken: "parseFile exampleEnv ''broken.csv'' = map Data [?acme] @ Error MalformedRow # []"
    by (simp add: exampleEnv_def)
  have good: "parseFile exampleEnv ''companies.csv'' = map Data [?acme, ?beta] @ End # []"
    by (simp add: exampleEnv_def)
  have missing: "parseFile exampleEnv ''missing.csv'' = map Data []"
    by (simp add: exampleEnv_def)
  have rows: "map (toCompany exampleEnv) [?acme, ?beta] =
      [\<lparr>c_companyName = Val ''Acme'', c_ycUrl = Val ''https://example.com/companies/acme''\<rparr>,
       \<lparr>c_companyName = Val ''Beta'', c_ycUrl = Val ''https://example.com/companies/beta''\<rparr>]"
    by (simp add: toCompany_def property_def exampleRow_def exampleEnv_def)
  show ?thesis
    using parseCompanyList_rejects_on_any_error [of exampleEnv "''broken.csv''" "[?acme]" MalformedRow "[]" "''.''"]
      parseCompanyList_rejects_on_any_error [of exampleEnv "''companies.csv''" "[?acme, ?beta]" _ "[]" "''.''"]
      parseCompanyList_rejects_on_any_error [of exampleEnv "''missing.csv''" "[]" _ _ "''.''"]
      broken good missing rows
    by simp
qed

end
